theory Spec2Isabelle
  imports Main
begin

section \<open>Python values and exceptions\<close>

text \<open>
  The server handles the objects that \<^verbatim>\<open>response.json()\<close> builds: \<^verbatim>\<open>None\<close>, booleans,
  integers, strings, lists and dictionaries. A dictionary is an association list in
  insertion order, with one entry per key. A \<^verbatim>\<open>str\<close> is a list of characters read as the
  code points 0..255. JSON numbers with a fraction or an exponent (Python floats) are not
  part of the model.
\<close>

datatype json =
    JNull
  | JBool bool
  | JInt int
  | JStr string
  | JList "json list"
  | JDict "(string \<times> json) list"

text \<open>
  The exceptions that can leave a function of \<^verbatim>\<open>server.py\<close>. \<open>HTTPStatusError\<close> is what
  \<^verbatim>\<open>response.raise_for_status()\<close> raises; it carries the response, of which the status code
  is kept. \<open>JSONDecodeError\<close> is what \<^verbatim>\<open>response.json()\<close> raises on a body that is not JSON.
\<close>

datatype py_exn =
    KeyError
  | TypeError
  | AttributeError
  | JSONDecodeError
  | HTTPStatusError int

text \<open>Sequencing of computations that may raise: the first exception wins.\<close>

fun rbind :: "py_exn + 'a \<Rightarrow> ('a \<Rightarrow> py_exn + 'b) \<Rightarrow> py_exn + 'b" where
  "rbind (Inl e) f = Inl e"
| "rbind (Inr x) f = f x"

fun rmap :: "('a \<Rightarrow> py_exn + 'b) \<Rightarrow> 'a list \<Rightarrow> py_exn + 'b list" where
  "rmap f [] = Inr []"
| "rmap f (x # xs) = rbind (f x) (\<lambda>y. rbind (rmap f xs) (\<lambda>ys. Inr (y # ys)))"

subsection \<open>Truthiness, lookups, iteration\<close>

text \<open>\<^verbatim>\<open>bool(x)\<close>, as \<^verbatim>\<open>if not data\<close> and \<^verbatim>\<open>a or b\<close> use it.\<close>

fun truthy :: "json \<Rightarrow> bool" where
  "truthy JNull = False"
| "truthy (JBool b) = b"
| "truthy (JInt i) = (i \<noteq> 0)"
| "truthy (JStr s) = (s \<noteq> [])"
| "truthy (JList xs) = (xs \<noteq> [])"
| "truthy (JDict kvs) = (kvs \<noteq> [])"

text \<open>\<^verbatim>\<open>x.get(k, d)\<close>: only a dictionary has the method.\<close>

fun py_get :: "json \<Rightarrow> string \<Rightarrow> json \<Rightarrow> py_exn + json" where
  "py_get (JDict kvs) k d = Inr (case map_of kvs k of None \<Rightarrow> d | Some v \<Rightarrow> v)"
| "py_get _ k d = Inl AttributeError"

text \<open>\<^verbatim>\<open>x[k]\<close> with a string key \<open>k\<close>: a missing key of a dictionary is a \<^verbatim>\<open>KeyError\<close>, and
  no other value can be indexed by a string.\<close>

fun py_item :: "json \<Rightarrow> string \<Rightarrow> py_exn + json" where
  "py_item (JDict kvs) k = (case map_of kvs k of None \<Rightarrow> Inl KeyError | Some v \<Rightarrow> Inr v)"
| "py_item _ k = Inl TypeError"

text \<open>\<^verbatim>\<open>for x in v\<close>: a list gives its elements, a dictionary its keys, a string its
  characters; nothing else is iterable.\<close>

fun py_iter :: "json \<Rightarrow> py_exn + json list" where
  "py_iter (JList xs) = Inr xs"
| "py_iter (JDict kvs) = Inr (map (\<lambda>kv. JStr (fst kv)) kvs)"
| "py_iter (JStr s) = Inr (map (\<lambda>c. JStr [c]) s)"
| "py_iter _ = Inl TypeError"

text \<open>\<^verbatim>\<open>x // k\<close> for a positive integer constant \<open>k\<close>: floor division; \<^verbatim>\<open>bool\<close> is a
  subclass of \<^verbatim>\<open>int\<close>.\<close>

fun py_floordiv :: "json \<Rightarrow> int \<Rightarrow> py_exn + int" where
  "py_floordiv (JInt i) k = Inr (i div k)"
| "py_floordiv (JBool b) k = Inr ((if b then 1 else 0) div k)"
| "py_floordiv _ k = Inl TypeError"

text \<open>\<^verbatim>\<open>xs[:n]\<close> on a sequence: a negative \<open>n\<close> counts from the end.\<close>

definition py_slice_to :: "int \<Rightarrow> 'a list \<Rightarrow> 'a list" where
  "py_slice_to n xs = (if 0 \<le> n then take (nat n) xs else take (length xs - nat (- n)) xs)"

subsection \<open>Printing\<close>

definition digit_char :: "nat \<Rightarrow> char" where
  "digit_char d = char_of (48 + d)"

function str_nat :: "nat \<Rightarrow> string" where
  "str_nat n = (if n < 10 then [digit_char n] else str_nat (n div 10) @ [digit_char (n mod 10)])"
  by pat_completeness auto
termination
  by (relation "measure id") auto

declare str_nat.simps [simp del]

definition str_int :: "int \<Rightarrow> string" where
  "str_int i = (if i < 0 then CHR ''-'' # str_nat (nat (- i)) else str_nat (nat i))"

text \<open>The format specification \<^verbatim>\<open>02d\<close>: at least two characters, filled with zeros after
  the sign.\<close>

definition fmt02d :: "int \<Rightarrow> string" where
  "fmt02d i = (if 0 \<le> i \<and> i < 10 then CHR ''0'' # str_int i else str_int i)"

fun join :: "string \<Rightarrow> string list \<Rightarrow> string" where
  "join sep [] = []"
| "join sep [x] = x"
| "join sep (x # y # ys) = x @ sep @ join sep (y # ys)"

definition hex_digit :: "nat \<Rightarrow> char" where
  "hex_digit d = ''0123456789abcdef'' ! d"

text \<open>\<^verbatim>\<open>repr\<close> of a string: single quotes unless the string has a single quote and no
  double quote; the quote and the backslash are escaped, tab, newline and carriage return
  are written with their letters, and the code points that are not printable (below 32,
  127 to 160, and 173) as \<^verbatim>\<open>\xhh\<close>.\<close>

definition repr_quote :: "string \<Rightarrow> char" where
  "repr_quote s = (if CHR 0x27 \<in> set s \<and> CHR 0x22 \<notin> set s then CHR 0x22 else CHR 0x27)"

definition repr_char :: "char \<Rightarrow> char \<Rightarrow> string" where
  "repr_char q c =
     (let n = (of_char c :: nat) in
      if c = q \<or> c = CHR 0x5C then [CHR 0x5C, c]
      else if n = 9 then [CHR 0x5C, CHR ''t'']
      else if n = 10 then [CHR 0x5C, CHR ''n'']
      else if n = 13 then [CHR 0x5C, CHR ''r'']
      else if n < 32 \<or> (127 \<le> n \<and> n \<le> 160) \<or> n = 173
        then [CHR 0x5C, CHR ''x'', hex_digit (n div 16), hex_digit (n mod 16)]
      else [c])"

definition repr_str :: "string \<Rightarrow> string" where
  "repr_str s = (let q = repr_quote s in q # concat (map (repr_char q) s) @ [q])"

fun py_repr :: "json \<Rightarrow> string" where
  "py_repr JNull = ''None''"
| "py_repr (JBool b) = (if b then ''True'' else ''False'')"
| "py_repr (JInt i) = str_int i"
| "py_repr (JStr s) = repr_str s"
| "py_repr (JList xs) = ''['' @ join '', '' (map py_repr xs) @ '']''"
| "py_repr (JDict kvs) =
     ''{'' @ join '', '' (map (\<lambda>kv. repr_str (fst kv) @ '': '' @ py_repr (snd kv)) kvs) @ ''}''"

text \<open>\<^verbatim>\<open>str(x)\<close>, which a replacement field \<^verbatim>\<open>{x}\<close> of an f-string applies: a string is
  itself, everything else prints as its \<^verbatim>\<open>repr\<close>.\<close>

fun py_str :: "json \<Rightarrow> string" where
  "py_str (JStr s) = s"
| "py_str v = py_repr v"

text \<open>\<^verbatim>\<open>"\n".join(results)\<close>: every item has to be a string.\<close>

fun as_str :: "json \<Rightarrow> py_exn + string" where
  "as_str (JStr s) = Inr s"
| "as_str _ = Inl TypeError"

definition join_lines :: "json list \<Rightarrow> py_exn + json" where
  "join_lines xs = rbind (rmap as_str xs) (\<lambda>ls. Inr (JStr (join [CHR 0x0A] ls)))"

section \<open>The region tables\<close>

definition REGIONAL_URLS :: "(string \<times> string) list" where
  "REGIONAL_URLS =
     [(''na'', ''https://americas.api.riotgames.com''),
      (''euw'', ''https://europe.api.riotgames.com''),
      (''eune'', ''https://europe.api.riotgames.com''),
      (''kr'', ''https://asia.api.riotgames.com''),
      (''jp'', ''https://asia.api.riotgames.com'')]"

definition PLATFORM_URLS :: "(string \<times> string) list" where
  "PLATFORM_URLS =
     [(''na'', ''https://na1.api.riotgames.com''),
      (''euw'', ''https://euw1.api.riotgames.com''),
      (''eune'', ''https://eun1.api.riotgames.com''),
      (''kr'', ''https://kr.api.riotgames.com''),
      (''jp'', ''https://jp1.api.riotgames.com'')]"

text \<open>\<^verbatim>\<open>TABLE[region]\<close>: a code that is not a key raises \<^verbatim>\<open>KeyError\<close>.\<close>

definition table_item :: "(string \<times> string) list \<Rightarrow> string \<Rightarrow> py_exn + string" where
  "table_item tab region = (case map_of tab region of None \<Rightarrow> Inl KeyError | Some u \<Rightarrow> Inr u)"

section \<open>The fetch adapter\<close>

text \<open>
  What \<^verbatim>\<open>client.get(url, headers=headers, timeout=30.0)\<close> does, seen from \<^verbatim>\<open>riot_req\<close>: it
  returns a response, or raises \<^verbatim>\<open>httpx.TimeoutException\<close>, or raises another
  \<^verbatim>\<open>httpx.RequestError\<close> \<open>e\<close> (of which \<^verbatim>\<open>str(e)\<close> is kept). Of a response the model keeps
  the status code, the header lookup \<^verbatim>\<open>response.headers.get\<close> and the value of
  \<^verbatim>\<open>response.json()\<close>, which is \<open>None\<close> when the body is not JSON. An exception of
  \<^verbatim>\<open>client.get\<close> outside \<^verbatim>\<open>httpx.RequestError\<close> (such as \<^verbatim>\<open>httpx.InvalidURL\<close>) is not among
  the outcomes.
\<close>

datatype http_outcome =
    Response int "string \<Rightarrow> string option" "json option"
  | TimeoutException
  | RequestError string

definition err_dict :: "string \<Rightarrow> json" where
  "err_dict msg = JDict [(''error'', JBool True), (''message'', JStr msg)]"

text \<open>\<^verbatim>\<open>response.raise_for_status()\<close> raises \<^verbatim>\<open>HTTPStatusError\<close> unless the status is
  200..299. That exception is an \<^verbatim>\<open>httpx.HTTPError\<close> but not a \<^verbatim>\<open>httpx.RequestError\<close>, so
  neither \<^verbatim>\<open>except\<close> clause of \<^verbatim>\<open>riot_req\<close> handles it.\<close>

definition is_success :: "int \<Rightarrow> bool" where
  "is_success status = (200 \<le> status \<and> status \<le> 299)"

fun riot_req :: "http_outcome \<Rightarrow> py_exn + json" where
  "riot_req (Response status hdrs body) =
     (if status = 429 then
        (let retry_after = (case hdrs ''Retry-After'' of None \<Rightarrow> ''unknown'' | Some v \<Rightarrow> v)
         in Inr (err_dict (''Rate limit hit. Retry after '' @ retry_after @ '' seconds.'')))
      else if status = 404 then Inr (err_dict ''Resource not found'')
      else if status = 403 then Inr (err_dict ''Invalid or expired API key.'')
      else if status = 401 then Inr (err_dict ''Unauthorized. Check your API key.'')
      else if \<not> is_success status then Inl (HTTPStatusError status)
      else (case body of None \<Rightarrow> Inl JSONDecodeError | Some j \<Rightarrow> Inr j))"
| "riot_req TimeoutException = Inr (err_dict ''Request timeout'')"
| "riot_req (RequestError e) = Inr (err_dict (''Network error '' @ e))"

section \<open>The tools\<close>

text \<open>
  Every tool takes the network as its first argument: \<open>net url\<close> is what the one
  \<^verbatim>\<open>GET\<close> of \<open>url\<close> comes to. A tool returns \<open>Inr v\<close> when the Python function returns
  \<open>v\<close> and \<open>Inl e\<close> when the exception \<open>e\<close> leaves it. The string arguments and the
  count are the typed parameters the tool host passes.
\<close>

text \<open>\<^verbatim>\<open>isinstance(data, dict) and data.get("error")\<close>.\<close>

fun dict_error :: "json \<Rightarrow> bool" where
  "dict_error (JDict kvs) = truthy (case map_of kvs ''error'' of None \<Rightarrow> JNull | Some v \<Rightarrow> v)"
| "dict_error _ = False"

text \<open>\<^verbatim>\<open>data[:n]\<close>: lists and strings can be sliced. (For a dictionary the exception is
  \<^verbatim>\<open>TypeError\<close> up to Python 3.11 and \<^verbatim>\<open>KeyError\<close> from 3.12 on; the model takes the
  former.)\<close>

fun py_slice :: "int \<Rightarrow> json \<Rightarrow> py_exn + json" where
  "py_slice n (JList xs) = Inr (JList (py_slice_to n xs))"
| "py_slice n (JStr s) = Inr (JStr (py_slice_to n s))"
| "py_slice n _ = Inl TypeError"

subsection \<open>\<^verbatim>\<open>get_player_id\<close>\<close>

definition player_id_result :: "json \<Rightarrow> py_exn + json" where
  "player_id_result data =
     (if \<not> truthy data then Inr (JStr ''Found no account with that name in the server'')
      else rbind (py_get data ''error'' JNull) (\<lambda>err.
        if truthy err then py_item data ''message''
        else rbind (py_item data ''gameName'') (\<lambda>g.
             rbind (py_item data ''tagLine'') (\<lambda>t.
             rbind (py_item data ''puuid'') (\<lambda>p.
             Inr (JStr (''Name:'' @ py_str g @ ''#'' @ py_str t @ '' PUUID: '' @ py_str p)))))))"

definition get_player_id ::
  "(string \<Rightarrow> http_outcome) \<Rightarrow> string \<Rightarrow> string \<Rightarrow> string \<Rightarrow> py_exn + json" where
  "get_player_id net region name tag_line =
     rbind (table_item REGIONAL_URLS region) (\<lambda>base.
     rbind (riot_req (net (base @ ''/riot/account/v1/accounts/by-riot-id/'' @ name @ ''/'' @ tag_line)))
       player_id_result)"

subsection \<open>\<^verbatim>\<open>get_champion_masteries\<close>\<close>

definition mastery_line :: "json \<Rightarrow> py_exn + json" where
  "mastery_line mastery =
     rbind (py_item mastery ''championId'') (\<lambda>c.
     rbind (py_item mastery ''championLevel'') (\<lambda>l.
     rbind (py_item mastery ''championPoints'') (\<lambda>p.
     Inr (JStr (''Champion '' @ py_str c @ '': Level '' @ py_str l @ '' - '' @ py_str p @ '' pts'')))))"

definition champion_masteries_result :: "json \<Rightarrow> py_exn + json" where
  "champion_masteries_result data =
     (if dict_error data then py_item data ''message''
      else if \<not> truthy data then Inr (JStr ''Account does not exist on region'')
      else rbind (py_slice 10 data) (\<lambda>top.
           rbind (py_iter top) (\<lambda>ms.
           rbind (rmap mastery_line ms) join_lines)))"

definition get_champion_masteries ::
  "(string \<Rightarrow> http_outcome) \<Rightarrow> string \<Rightarrow> string \<Rightarrow> py_exn + json" where
  "get_champion_masteries net uuid region =
     rbind (table_item PLATFORM_URLS region) (\<lambda>base.
     rbind (riot_req (net (base @ ''/lol/champion-mastery/v4/champion-masteries/by-puuid/'' @ uuid)))
       champion_masteries_result)"

subsection \<open>\<^verbatim>\<open>get_newest_matches\<close>\<close>

definition newest_matches_result :: "int \<Rightarrow> json \<Rightarrow> py_exn + json" where
  "newest_matches_result numberOfGames data =
     (if dict_error data then py_item data ''message''
      else if \<not> truthy data then Inr (JStr ''Account has no matches or does not exist'')
      else rbind (py_slice numberOfGames data) (\<lambda>newest.
           rbind (py_iter newest) join_lines))"

definition get_newest_matches ::
  "(string \<Rightarrow> http_outcome) \<Rightarrow> string \<Rightarrow> string \<Rightarrow> int \<Rightarrow> py_exn + json" where
  "get_newest_matches net region uuid numberOfGames =
     rbind (table_item REGIONAL_URLS region) (\<lambda>base.
     rbind (riot_req (net (base @ ''/lol/match/v5/matches/by-puuid/'' @ uuid @ ''/ids?count=''
                            @ str_int numberOfGames)))
       (newest_matches_result numberOfGames))"

subsection \<open>\<^verbatim>\<open>get_match_by_id\<close>\<close>

definition participant_line :: "json \<Rightarrow> py_exn + json" where
  "participant_line p =
     rbind (py_item p ''riotIdGameName'') (\<lambda>n.
     rbind (py_item p ''championName'') (\<lambda>c.
     rbind (py_item p ''kills'') (\<lambda>k.
     rbind (py_item p ''deaths'') (\<lambda>d.
     rbind (py_item p ''assists'') (\<lambda>a.
     rbind (py_item p ''totalTimeSpentDead'') (\<lambda>t.
     rbind (py_item p ''win'') (\<lambda>w.
     rbind (py_item p ''timePlayed'') (\<lambda>tp.
     Inr (JStr (py_str n @ '' - '' @ py_str c @ '' - ''
                @ py_str k @ ''/'' @ py_str d @ ''/'' @ py_str a
                @ '' time spent dead'' @ py_str t @ '' - ''
                @ (if truthy w then ''Win'' else ''Loss'') @ '' -'' @ py_str tp))))))))))"

definition match_result :: "json \<Rightarrow> py_exn + json" where
  "match_result data =
     (if \<not> truthy data then Inr (JStr ''Match does not exist'')
      else rbind (py_get data ''error'' JNull) (\<lambda>err.
        if truthy err then py_item data ''message''
        else rbind (py_item data ''info'') (\<lambda>info.
             rbind (py_item info ''gameMode'') (\<lambda>mode.
             rbind (py_item info ''gameDuration'') (\<lambda>duration.
             rbind (py_floordiv duration 60) (\<lambda>minutes.
             rbind (py_item info ''participants'') (\<lambda>ps.
             rbind (py_iter ps) (\<lambda>pl.
             rbind (rmap participant_line pl) (\<lambda>lines.
             join_lines
               (JStr (''Mode: '' @ py_str mode @ '' - Duration: '' @ str_int minutes @ ''min'')
                # lines))))))))))"

definition get_match_by_id ::
  "(string \<Rightarrow> http_outcome) \<Rightarrow> string \<Rightarrow> string \<Rightarrow> py_exn + json" where
  "get_match_by_id net region match_id =
     rbind (table_item REGIONAL_URLS region) (\<lambda>base.
     rbind (riot_req (net (base @ ''/lol/match/v5/matches/'' @ match_id)))
       match_result)"

subsection \<open>\<^verbatim>\<open>get_match_timeline_by_id\<close>\<close>

text \<open>
  The keys of the Python dictionaries \<^verbatim>\<open>participant_map\<close>, \<^verbatim>\<open>team_map\<close> and \<^verbatim>\<open>slot_map\<close>:
  hashing a list or a dictionary raises \<^verbatim>\<open>TypeError\<close>, and \<^verbatim>\<open>True\<close> and \<^verbatim>\<open>False\<close> are the
  same keys as 1 and 0.
\<close>

datatype key = KNone | KInt int | KStr string

fun py_hash :: "json \<Rightarrow> py_exn + key" where
  "py_hash JNull = Inr KNone"
| "py_hash (JBool b) = Inr (KInt (if b then 1 else 0))"
| "py_hash (JInt i) = Inr (KInt i)"
| "py_hash (JStr s) = Inr (KStr s)"
| "py_hash (JList xs) = Inl TypeError"
| "py_hash (JDict kvs) = Inl TypeError"

text \<open>An entry of \<^verbatim>\<open>participant_map\<close> is the pair of its \<^verbatim>\<open>"name"\<close> and its
  \<^verbatim>\<open>"champion"\<close>.\<close>

type_synonym participant_map = "key \<Rightarrow> (json \<times> json) option"

definition add_participant :: "participant_map \<Rightarrow> json \<Rightarrow> py_exn + participant_map" where
  "add_participant pm p =
     rbind (py_item p ''participantId'') (\<lambda>pid.
     rbind (rbind (py_get p ''riotIdGameName'' JNull) (\<lambda>a.
              if truthy a then Inr a
              else rbind (py_get p ''summonerName'' JNull) (\<lambda>b.
                if truthy b then Inr b else Inr (JStr (''Player '' @ py_str pid))))) (\<lambda>name.
     rbind (py_get p ''championName'' (JStr ''Unknown'')) (\<lambda>champion.
     rbind (py_hash pid) (\<lambda>k.
     Inr (pm(k \<mapsto> (name, champion)))))))"

fun build_participant_map :: "participant_map \<Rightarrow> json list \<Rightarrow> py_exn + participant_map" where
  "build_participant_map pm [] = Inr pm"
| "build_participant_map pm (p # ps) =
     rbind (add_participant pm p) (\<lambda>pm'. build_participant_map pm' ps)"

definition get_label :: "participant_map \<Rightarrow> json \<Rightarrow> py_exn + string" where
  "get_label pm pid =
     rbind (py_hash pid) (\<lambda>k.
     let p = (case pm k of None \<Rightarrow> (JStr ''?'', JStr ''?'') | Some e \<Rightarrow> e)
     in Inr (py_str (fst p) @ ''('' @ py_str (snd p) @ '')''))"

text \<open>The prefix \<^verbatim>\<open>[{minutes:02d}:{seconds:02d}]\<close> that starts each of the five line
  formats.\<close>

definition time_prefix :: "int \<Rightarrow> int \<Rightarrow> string" where
  "time_prefix minutes seconds = ''['' @ fmt02d minutes @ '':'' @ fmt02d seconds @ '']''"

definition team_name :: "json \<Rightarrow> py_exn + string" where
  "team_name team =
     rbind (py_hash team) (\<lambda>k.
       if k = KInt 100 then Inr ''Blue Team''
       else if k = KInt 200 then Inr ''Red Team''
       else Inl KeyError)"

definition skill_name :: "json \<Rightarrow> py_exn + string" where
  "skill_name skill_slot =
     rbind (py_hash skill_slot) (\<lambda>k.
       Inr (if k = KInt 1 then ''Q''
            else if k = KInt 2 then ''W''
            else if k = KInt 3 then ''E''
            else if k = KInt 4 then ''R''
            else py_str skill_slot))"

text \<open>One pass of the inner loop: the line appended for the event, if any.\<close>

definition render_event :: "participant_map \<Rightarrow> int \<Rightarrow> int \<Rightarrow> json \<Rightarrow> py_exn + string option" where
  "render_event pm minutes seconds event =
     rbind (py_get event ''type'' JNull) (\<lambda>etype.
     if etype = JStr ''CHAMPION_KILL'' then
       rbind (py_get event ''killerId'' (JInt 0)) (\<lambda>killer.
       rbind (py_get event ''victimId'' (JInt 0)) (\<lambda>victim.
       rbind (py_get event ''assistingParticipantIds'' (JList [])) (\<lambda>assists.
       rbind (get_label pm killer) (\<lambda>lk.
       rbind (get_label pm victim) (\<lambda>lv.
       Inr (Some (time_prefix minutes seconds @ '' KILL - Player '' @ lk
                  @ '' killed Player '' @ lv @ '' (assists: '' @ py_str assists @ '')'')))))))
     else if etype = JStr ''BUILDING_KILL'' then
       rbind (py_get event ''teamId'' (JInt 0)) (\<lambda>team.
       rbind (py_get event ''buildingType'' (JStr [])) (\<lambda>building.
       rbind (py_get event ''laneType'' (JStr [])) (\<lambda>lane.
       rbind (team_name team) (\<lambda>tn.
       Inr (Some (time_prefix minutes seconds @ '' BUILDING - Team '' @ tn
                  @ '' lost '' @ py_str building @ '' ('' @ py_str lane @ '')''))))))
     else if etype = JStr ''ELITE_MONSTER_KILL'' then
       rbind (py_get event ''killerId'' (JInt 0)) (\<lambda>killer.
       rbind (py_get event ''monsterType'' (JStr [])) (\<lambda>monster.
       rbind (py_get event ''monsterSubType'' (JStr [])) (\<lambda>subtype.
       rbind (get_label pm killer) (\<lambda>lk.
       Inr (Some (time_prefix minutes seconds @ '' MONSTER - Player '' @ lk
                  @ '' killed '' @ py_str monster @ '' '' @ py_str subtype))))))
     else if etype = JStr ''ITEM_PURCHASED'' then
       rbind (py_get event ''participantId'' (JInt 0)) (\<lambda>participant.
       rbind (py_get event ''itemId'' (JInt 0)) (\<lambda>item_id.
       rbind (get_label pm participant) (\<lambda>lp.
       Inr (Some (time_prefix minutes seconds @ '' ITEM - Player '' @ lp
                  @ '' purchased item '' @ py_str item_id)))))
     else if etype = JStr ''SKILL_LEVEL_UP'' then
       rbind (py_get event ''participantId'' (JInt 0)) (\<lambda>participant.
       rbind (py_get event ''skillSlot'' (JInt 0)) (\<lambda>skill_slot.
       rbind (skill_name skill_slot) (\<lambda>sn.
       rbind (get_label pm participant) (\<lambda>lp.
       Inr (Some (time_prefix minutes seconds @ '' SKILL - Player '' @ lp
                  @ '' leveled up '' @ sn))))))
     else Inr None)"

text \<open>The lines one event list appends, in order.\<close>

fun render_events :: "participant_map \<Rightarrow> int \<Rightarrow> int \<Rightarrow> json list \<Rightarrow> py_exn + string list" where
  "render_events pm minutes seconds [] = Inr []"
| "render_events pm minutes seconds (event # events) =
     rbind (render_event pm minutes seconds event) (\<lambda>l.
     rbind (render_events pm minutes seconds events) (\<lambda>ls.
     Inr (case l of None \<Rightarrow> ls | Some x \<Rightarrow> x # ls)))"

text \<open>\<^verbatim>\<open>minutes\<close> and \<^verbatim>\<open>seconds\<close> of a frame.\<close>

definition frame_time :: "json \<Rightarrow> py_exn + int \<times> int" where
  "frame_time frame =
     rbind (py_get frame ''timestamp'' (JInt 0)) (\<lambda>ts.
     rbind (py_floordiv ts 1000) (\<lambda>timestamp.
     Inr (timestamp div 60, timestamp mod 60)))"

text \<open>One pass of the outer loop: the lines a frame appends.\<close>

definition render_frame :: "participant_map \<Rightarrow> json \<Rightarrow> py_exn + string list" where
  "render_frame pm frame =
     rbind (frame_time frame) (\<lambda>t.
     rbind (py_get frame ''events'' (JList [])) (\<lambda>evs.
     rbind (py_iter evs) (\<lambda>el.
     render_events pm (fst t) (snd t) el)))"

definition timeline_result :: "string \<Rightarrow> json \<Rightarrow> py_exn + json" where
  "timeline_result match_id data =
     (if \<not> truthy data then Inr (JStr ''Match does not exist'')
      else rbind (py_get data ''error'' JNull) (\<lambda>err.
        if truthy err then py_item data ''message''
        else rbind (py_get data ''info'' (JDict [])) (\<lambda>info.
             rbind (py_get info ''frames'' (JList [])) (\<lambda>frames.
             rbind (py_get info ''participants'' JNull) (\<lambda>ps.
             rbind (py_iter ps) (\<lambda>pl.
             rbind (build_participant_map Map.empty pl) (\<lambda>pm.
             rbind (py_get info ''frameInterval'' (JInt 0)) (\<lambda>fi.
             rbind (py_floordiv fi 1000) (\<lambda>interval.
             rbind (py_iter frames) (\<lambda>fl.
             rbind (rmap (render_frame pm) fl) (\<lambda>lss.
             Inr (JStr (join [CHR 0x0A]
                    ((''Match: '' @ match_id @ '' - Frame interval: '' @ str_int interval @ ''s'')
                     # concat lss))))))))))))))"

definition get_match_timeline_by_id ::
  "(string \<Rightarrow> http_outcome) \<Rightarrow> string \<Rightarrow> string \<Rightarrow> py_exn + json" where
  "get_match_timeline_by_id net region match_id =
     rbind (table_item REGIONAL_URLS region) (\<lambda>base.
     rbind (riot_req (net (base @ ''/lol/match/v5/matches/'' @ match_id @ ''/timeline'')))
       (timeline_result match_id))"

text \<open>The event types that have a branch in the loop of \<^verbatim>\<open>get_match_timeline_by_id\<close>.\<close>

definition recognized_event :: "json \<Rightarrow> bool" where
  "recognized_event event =
     (\<exists>t \<in> set [''CHAMPION_KILL'', ''BUILDING_KILL'', ''ELITE_MONSTER_KILL'',
                  ''ITEM_PURCHASED'', ''SKILL_LEVEL_UP''].
        py_get event ''type'' JNull = Inr (JStr t))"

section \<open>Helper facts\<close>

lemma rbind_Inr_iff: "rbind m f = Inr y \<longleftrightarrow> (\<exists>x. m = Inr x \<and> f x = Inr y)"
  by (cases m) auto

lemma rbind_Inl_iff: "rbind m f = Inl e \<longleftrightarrow> m = Inl e \<or> (\<exists>x. m = Inr x \<and> f x = Inl e)"
  by (cases m) auto

lemma regional_keys:
  "fst ` set REGIONAL_URLS = {''na'', ''euw'', ''eune'', ''kr'', ''jp''}"
  by (auto simp: REGIONAL_URLS_def)

lemma platform_keys:
  "fst ` set PLATFORM_URLS = {''na'', ''euw'', ''eune'', ''kr'', ''jp''}"
  by (auto simp: PLATFORM_URLS_def)

lemma table_item_known:
  "region \<in> fst ` set tab \<Longrightarrow> \<exists>base. table_item tab region = Inr base"
  by (cases "map_of tab region") (auto simp: table_item_def map_of_eq_None_iff)

lemma table_item_unknown:
  assumes "region \<notin> fst ` set tab"
  shows "table_item tab region = Inl KeyError"
proof -
  have "map_of tab region = None"
    using assms by (simp add: map_of_eq_None_iff)
  then show ?thesis
    by (simp add: table_item_def)
qed

lemma player_id_result_err [simp]: "player_id_result (err_dict msg) = Inr (JStr msg)"
  by (simp add: player_id_result_def err_dict_def)

lemma champion_masteries_result_err [simp]: "champion_masteries_result (err_dict msg) = Inr (JStr msg)"
  by (simp add: champion_masteries_result_def err_dict_def)

lemma newest_matches_result_err [simp]: "newest_matches_result n (err_dict msg) = Inr (JStr msg)"
  by (simp add: newest_matches_result_def err_dict_def)

lemma match_result_err [simp]: "match_result (err_dict msg) = Inr (JStr msg)"
  by (simp add: match_result_def err_dict_def)

lemma timeline_result_err [simp]: "timeline_result match_id (err_dict msg) = Inr (JStr msg)"
  by (simp add: timeline_result_def err_dict_def)

text \<open>The outcomes that \<^verbatim>\<open>riot_req\<close> turns into an error dictionary.\<close>

lemma riot_req_recovered:
  "out = TimeoutException \<or> (\<exists>e. out = RequestError e) \<or>
   (\<exists>status hdrs body. out = Response status hdrs body \<and> status \<in> {429, 404, 403, 401})
   \<Longrightarrow> \<exists>msg. riot_req out = Inr (err_dict msg)"
  by auto

text \<open>With a region of the table, a tool is its one request followed by the formatting
  of the result.\<close>

lemma tools_known_region:
  assumes "region \<in> fst ` set REGIONAL_URLS"
  shows "\<exists>u. get_player_id net region name tag_line = rbind (riot_req (net u)) player_id_result"
    and "\<exists>u. get_champion_masteries net uuid region
               = rbind (riot_req (net u)) champion_masteries_result"
    and "\<exists>u. get_newest_matches net region uuid n
               = rbind (riot_req (net u)) (newest_matches_result n)"
    and "\<exists>u. get_match_by_id net region match_id = rbind (riot_req (net u)) match_result"
    and "\<exists>u. get_match_timeline_by_id net region match_id
               = rbind (riot_req (net u)) (timeline_result match_id)"
proof -
  obtain base where b: "table_item REGIONAL_URLS region = Inr base"
    using assms table_item_known by blast
  have "region \<in> fst ` set PLATFORM_URLS"
    using assms by (simp add: regional_keys platform_keys)
  then obtain pbase where p: "table_item PLATFORM_URLS region = Inr pbase"
    using table_item_known by blast
  show "\<exists>u. get_player_id net region name tag_line = rbind (riot_req (net u)) player_id_result"
    by (auto simp: get_player_id_def b)
  show "\<exists>u. get_champion_masteries net uuid region
               = rbind (riot_req (net u)) champion_masteries_result"
    by (auto simp: get_champion_masteries_def p)
  show "\<exists>u. get_newest_matches net region uuid n
               = rbind (riot_req (net u)) (newest_matches_result n)"
    by (auto simp: get_newest_matches_def b)
  show "\<exists>u. get_match_by_id net region match_id = rbind (riot_req (net u)) match_result"
    by (auto simp: get_match_by_id_def b)
  show "\<exists>u. get_match_timeline_by_id net region match_id
               = rbind (riot_req (net u)) (timeline_result match_id)"
    by (auto simp: get_match_timeline_by_id_def b)
qed

text \<open>Facts about a successful fetch and about the loops that build the lines.\<close>

lemma riot_req_success:
  "200 \<le> status \<and> status \<le> 299 \<Longrightarrow> riot_req (Response status hdrs (Some j)) = Inr j"
  by (simp add: is_success_def)

lemma rmap_Inr:
  "(\<And>x. x \<in> set xs \<Longrightarrow> f x = Inr (g x)) \<Longrightarrow> rmap f xs = Inr (map g xs)"
  by (induction xs) simp_all

lemma join_lines_strs: "join_lines (map JStr ls) = Inr (JStr (join [CHR 0x0A] ls))"
proof -
  have "rmap as_str (map JStr ls) = Inr ls"
    by (induction ls) simp_all
  then show ?thesis
    by (simp add: join_lines_def)
qed

text \<open>A line that fails makes the whole summary fail.\<close>

lemma render_events_fail:
  "e \<in> set evs \<Longrightarrow> render_event pm minutes seconds e = Inl x
     \<Longrightarrow> \<exists>y. render_events pm minutes seconds evs = Inl y"
proof (induction evs)
  case Nil
  then show ?case by simp
next
  case (Cons a evs)
  show ?case
  proof (cases "render_event pm minutes seconds a")
    case (Inl y)
    then show ?thesis by simp
  next
    case (Inr lo)
    with Cons have "e \<in> set evs" by auto
    with Cons obtain y where "render_events pm minutes seconds evs = Inl y" by blast
    with Inr show ?thesis by simp
  qed
qed

text \<open>The decimal digits of small numbers, and the width of \<^verbatim>\<open>02d\<close>.\<close>

lemma str_nat_digit: "n < 10 \<Longrightarrow> str_nat n = [digit_char n]"
  by (subst str_nat.simps) simp

lemma str_nat_nonempty: "str_nat n \<noteq> []"
  by (subst str_nat.simps) simp

lemma str_nat_two: "10 \<le> n \<Longrightarrow> 2 \<le> length (str_nat n)"
proof -
  assume "10 \<le> n"
  then have "str_nat n = str_nat (n div 10) @ [digit_char (n mod 10)]"
    by (subst str_nat.simps) simp
  moreover have "1 \<le> length (str_nat (n div 10))"
    using str_nat_nonempty [of "n div 10"] by (cases "str_nat (n div 10)") simp_all
  ultimately show ?thesis by simp
qed

lemma str_nat_two_digits:
  "10 \<le> n \<Longrightarrow> n < 100 \<Longrightarrow> str_nat n = [digit_char (n div 10), digit_char (n mod 10)]"
proof -
  assume a: "10 \<le> n" "n < 100"
  then have "str_nat n = str_nat (n div 10) @ [digit_char (n mod 10)]"
    by (subst str_nat.simps) simp
  moreover have "n div 10 < 10" using a by simp
  ultimately show ?thesis by (simp add: str_nat_digit)
qed

lemma str_int_0: "str_int 0 = ''0''"
  by code_simp

lemma fmt02d_padding:
  "fmt02d i = replicate (2 - length (str_int i)) (CHR ''0'') @ str_int i"
proof -
  consider "i < 0" | "0 \<le> i" "i < 10" | "10 \<le> i" by linarith
  then show ?thesis
  proof cases
    case 1
    then have "2 \<le> length (str_int i)"
      using str_nat_nonempty [of "nat (- i)"]
      by (cases "str_nat (nat (- i))") (simp_all add: str_int_def)
    with 1 show ?thesis by (simp add: fmt02d_def)
  next
    case 2
    then have "str_int i = [digit_char (nat i)]"
      by (simp add: str_int_def str_nat_digit)
    with 2 show ?thesis by (simp add: fmt02d_def numeral_2_eq_2)
  next
    case 3
    then have "2 \<le> length (str_int i)"
      using str_nat_two [of "nat i"] by (simp add: str_int_def)
    with 3 show ?thesis by (simp add: fmt02d_def)
  qed
qed

lemma fmt02d_seconds: "0 \<le> i \<Longrightarrow> i < 60 \<Longrightarrow> length (fmt02d i) = 2"
proof -
  assume a: "0 \<le> i" "i < 60"
  show ?thesis
  proof (cases "i < 10")
    case True
    with a show ?thesis by (simp add: fmt02d_def str_int_def str_nat_digit)
  next
    case False
    with a have "str_nat (nat i) = [digit_char (nat i div 10), digit_char (nat i mod 10)]"
      by (intro str_nat_two_digits) simp_all
    with a False show ?thesis by (simp add: fmt02d_def str_int_def)
  qed
qed

text \<open>Every line of a frame starts with the frame's time prefix.\<close>

lemma render_event_prefix:
  "render_event pm minutes seconds e = Inr (Some l)
     \<Longrightarrow> \<exists>rest. l = time_prefix minutes seconds @ rest"
  by (auto simp: render_event_def rbind_Inr_iff split: if_splits)

lemma render_events_prefix:
  "render_events pm minutes seconds evs = Inr ls
     \<Longrightarrow> \<forall>l \<in> set ls. \<exists>rest. l = time_prefix minutes seconds @ rest"
proof (induction evs arbitrary: ls)
  case Nil
  then show ?case by simp
next
  case (Cons e evs)
  from Cons.prems obtain lo ls' where
    e: "render_event pm minutes seconds e = Inr lo"
    and r: "render_events pm minutes seconds evs = Inr ls'"
    and ls: "ls = (case lo of None \<Rightarrow> ls' | Some x \<Rightarrow> x # ls')"
    by (auto simp: rbind_Inr_iff)
  from Cons.IH [OF r] have ih: "\<forall>l \<in> set ls'. \<exists>rest. l = time_prefix minutes seconds @ rest" .
  show ?case
  proof (cases lo)
    case None
    with ls ih show ?thesis by simp
  next
    case (Some x)
    with e render_event_prefix have "\<exists>rest. x = time_prefix minutes seconds @ rest" by blast
    with Some ls ih show ?thesis by simp
  qed
qed

text \<open>The inner loop appends one line for each recognized event and none for any other.\<close>

lemma render_event_Some_recognized:
  "render_event pm minutes seconds e = Inr (Some l) \<Longrightarrow> recognized_event e"
  by (auto simp: render_event_def recognized_event_def rbind_Inr_iff split: if_splits)

lemma render_event_None_unrecognized:
  "render_event pm minutes seconds e = Inr None \<Longrightarrow> \<not> recognized_event e"
  by (auto simp: render_event_def recognized_event_def rbind_Inr_iff split: if_splits)

lemma render_events_order:
  "render_events pm minutes seconds evs = Inr ls
     \<Longrightarrow> list_all2 (\<lambda>e l. render_event pm minutes seconds e = Inr (Some l))
           (filter recognized_event evs) ls"
proof (induction evs arbitrary: ls)
  case Nil
  then show ?case by simp
next
  case (Cons e evs)
  from Cons.prems obtain lo ls' where
    e: "render_event pm minutes seconds e = Inr lo"
    and r: "render_events pm minutes seconds evs = Inr ls'"
    and ls: "ls = (case lo of None \<Rightarrow> ls' | Some x \<Rightarrow> x # ls')"
    by (auto simp: rbind_Inr_iff)
  note ih = Cons.IH [OF r]
  show ?case
  proof (cases lo)
    case None
    with e have "\<not> recognized_event e"
      by (simp add: render_event_None_unrecognized)
    with None ls ih show ?thesis by simp
  next
    case (Some x)
    with e have "recognized_event e"
      by (simp add: render_event_Some_recognized)
    with Some e ls ih show ?thesis by simp
  qed
qed

lemma render_events_total:
  "(\<And>e. e \<in> set evs \<Longrightarrow> \<exists>lo. render_event pm minutes seconds e = Inr lo)
     \<Longrightarrow> \<exists>ls. render_events pm minutes seconds evs = Inr ls"
proof (induction evs)
  case Nil
  then show ?case by simp
next
  case (Cons e evs)
  then obtain lo where "render_event pm minutes seconds e = Inr lo" by auto
  moreover from Cons obtain ls where "render_events pm minutes seconds evs = Inr ls" by auto
  ultimately show ?case by simp
qed

text \<open>Counting the lines of a joined text: numbers print without a newline.\<close>

lemma digit_char_not_newline: "d < 10 \<Longrightarrow> digit_char d \<noteq> CHR 0x0A"
proof -
  assume "d < 10"
  then have "d \<in> {0, 1, 2, 3, 4, 5, 6, 7, 8, 9}" by auto
  then show ?thesis
    by (auto simp: digit_char_def char_of_def)
qed

lemma str_nat_no_newline: "CHR 0x0A \<notin> set (str_nat n)"
proof (induction n rule: str_nat.induct)
  case (1 n)
  show ?case
  proof (cases "n < 10")
    case True
    then show ?thesis
      by (simp add: str_nat_digit digit_char_not_newline [symmetric])
  next
    case False
    then have "str_nat n = str_nat (n div 10) @ [digit_char (n mod 10)]"
      by (subst str_nat.simps) simp
    moreover have "digit_char (n mod 10) \<noteq> CHR 0x0A"
      by (rule digit_char_not_newline) simp
    ultimately show ?thesis
      using 1 False by auto
  qed
qed

lemma str_int_no_newline: "CHR 0x0A \<notin> set (str_int i)"
  by (simp add: str_int_def str_nat_no_newline)

lemma count_join:
  "ls \<noteq> [] \<Longrightarrow> \<forall>l \<in> set ls. CHR 0x0A \<notin> set l
     \<Longrightarrow> count_list (join [CHR 0x0A] ls) (CHR 0x0A) + 1 = length ls"
proof (induction "[CHR 0x0A]" ls rule: join.induct)
  case 1
  then show ?case by simp
next
  case (2 x)
  then show ?case by (simp add: count_list_0_iff)
next
  case (3 x y ys)
  then show ?case by (simp add: count_list_0_iff)
qed

section \<open>The claims\<close>

subsection \<open>C1\<close>




subsection \<open>C2\<close>

text \<open>
  C2, as stated, fails: no tool has a handler of its own, so what \<^verbatim>\<open>riot_req\<close> does not
  turn into an error result leaves the tool as an exception. Here a 200 response whose
  body lacks \<^verbatim>\<open>gameName\<close> makes \<^verbatim>\<open>get_player_id\<close> raise \<^verbatim>\<open>KeyError\<close>.
\<close>

theorem unhandled_fault_counterexample:
  "get_player_id (\<lambda>url. Response 200 Map.empty (Some (JDict [(''puuid'', JStr ''p-1'')])))
     ''na'' ''Ann'' ''EUW'' = Inl KeyError"
  by (simp add: get_player_id_def table_item_def REGIONAL_URLS_def player_id_result_def
      is_success_def)

text \<open>
  C2, amended. With a region code of the table, and a fetch that ends in a timeout, in
  another transport failure or in a response with status 429, 404, 403 or 401, every tool
  returns a non-empty string and raises nothing. (The tools are functions of their
  arguments and of the outcome of their own request: there is no state that a failed
  call could leave behind.)
\<close>

theorem tools_recover_fetch_errors:
  assumes "region \<in> fst ` set REGIONAL_URLS"
    and "out = TimeoutException \<or> (\<exists>e. out = RequestError e) \<or>
         (\<exists>status hdrs body. out = Response status hdrs body \<and> status \<in> {429, 404, 403, 401})"
  shows "\<exists>msg. msg \<noteq> []
       \<and> get_player_id (\<lambda>url. out) region name tag_line = Inr (JStr msg)
       \<and> get_champion_masteries (\<lambda>url. out) uuid region = Inr (JStr msg)
       \<and> get_newest_matches (\<lambda>url. out) region uuid n = Inr (JStr msg)
       \<and> get_match_by_id (\<lambda>url. out) region match_id = Inr (JStr msg)
       \<and> get_match_timeline_by_id (\<lambda>url. out) region match_id = Inr (JStr msg)"
proof -
  have "\<exists>msg. msg \<noteq> [] \<and> riot_req out = Inr (err_dict msg)"
    using assms(2) by auto
  then obtain msg where m: "msg \<noteq> []" "riot_req out = Inr (err_dict msg)"
    by blast
  show ?thesis
    using tools_known_region [OF assms(1), of "\<lambda>url. out"] m
    by (intro exI [of _ msg]) simp
qed

theorem tools_recover_fetch_errors_witness:
  "\<exists>msg. msg \<noteq> []
       \<and> get_player_id (\<lambda>url. Response 401 Map.empty None) ''na'' ''Ann'' ''EUW'' = Inr (JStr msg)
       \<and> get_champion_masteries (\<lambda>url. Response 401 Map.empty None) ''abc'' ''na'' = Inr (JStr msg)
       \<and> get_newest_matches (\<lambda>url. Response 401 Map.empty None) ''na'' ''abc'' 3 = Inr (JStr msg)
       \<and> get_match_by_id (\<lambda>url. Response 401 Map.empty None) ''na'' ''NA1_1'' = Inr (JStr msg)
       \<and> get_match_timeline_by_id (\<lambda>url. Response 401 Map.empty None) ''na'' ''NA1_1''
           = Inr (JStr msg)"
proof -
  have r: "''na'' \<in> fst ` set REGIONAL_URLS"
    by (simp add: regional_keys)
  have o: "Response 401 Map.empty None = TimeoutException
      \<or> (\<exists>e. Response 401 Map.empty None = RequestError e)
      \<or> (\<exists>status hdrs body. Response 401 Map.empty None = Response status hdrs body
            \<and> status \<in> {429, 404, 403, 401})"
    by simp
  show ?thesis
    using tools_recover_fetch_errors [OF r o, where name = "''Ann''" and tag_line = "''EUW''"
        and uuid = "''abc''" and n = 3 and match_id = "''NA1_1''"]
    by simp
qed

subsection \<open>C3\<close>

text \<open>
  C3. When the fetch result is an error result (the dictionary \<^verbatim>\<open>{"error": True,
  "message": msg}\<close>), each of the five tools returns exactly the string \<open>msg\<close>, with
  nothing added; and \<^verbatim>\<open>riot_req\<close> gives such an error result for every rate limit, not
  found, forbidden, unauthorized, timeout and network error. A fetch result exists only
  when the region code is a key of the region table.
\<close>

theorem tools_return_error_message:
  assumes "region \<in> fst ` set REGIONAL_URLS"
  shows "(riot_req out = Inr (err_dict msg) \<longrightarrow>
            get_player_id (\<lambda>url. out) region name tag_line = Inr (JStr msg)
          \<and> get_champion_masteries (\<lambda>url. out) uuid region = Inr (JStr msg)
          \<and> get_newest_matches (\<lambda>url. out) region uuid n = Inr (JStr msg)
          \<and> get_match_by_id (\<lambda>url. out) region match_id = Inr (JStr msg)
          \<and> get_match_timeline_by_id (\<lambda>url. out) region match_id = Inr (JStr msg))
       \<and> (out = TimeoutException \<or> (\<exists>e. out = RequestError e) \<or>
            (\<exists>status hdrs body. out = Response status hdrs body
                \<and> status \<in> {429, 404, 403, 401}) \<longrightarrow>
            (\<exists>m. riot_req out = Inr (err_dict m)))"
proof (intro conjI impI)
  assume "riot_req out = Inr (err_dict msg)"
  with tools_known_region [OF assms, of "\<lambda>url. out"]
  show "get_player_id (\<lambda>url. out) region name tag_line = Inr (JStr msg)"
    and "get_champion_masteries (\<lambda>url. out) uuid region = Inr (JStr msg)"
    and "get_newest_matches (\<lambda>url. out) region uuid n = Inr (JStr msg)"
    and "get_match_by_id (\<lambda>url. out) region match_id = Inr (JStr msg)"
    and "get_match_timeline_by_id (\<lambda>url. out) region match_id = Inr (JStr msg)"
    by simp_all
next
  assume "out = TimeoutException \<or> (\<exists>e. out = RequestError e) \<or>
            (\<exists>status hdrs body. out = Response status hdrs body
                \<and> status \<in> {429, 404, 403, 401})"
  then show "\<exists>m. riot_req out = Inr (err_dict m)"
    by (rule riot_req_recovered)
qed

theorem tools_return_error_message_witness:
  "get_player_id (\<lambda>url. TimeoutException) ''na'' ''Ann'' ''EUW'' = Inr (JStr ''Request timeout'')
   \<and> get_champion_masteries (\<lambda>url. Response 404 Map.empty None) ''abc'' ''euw''
       = Inr (JStr ''Resource not found'')
   \<and> get_newest_matches (\<lambda>url. RequestError ''refused'') ''kr'' ''abc'' 5
       = Inr (JStr ''Network error refused'')
   \<and> get_match_by_id (\<lambda>url. Response 403 Map.empty None) ''jp'' ''JP1_1''
       = Inr (JStr ''Invalid or expired API key.'')
   \<and> get_match_timeline_by_id (\<lambda>url. Response 429 Map.empty None) ''eune'' ''EUN1_1''
       = Inr (JStr ''Rate limit hit. Retry after unknown seconds.'')"
proof -
  have r: "''na'' \<in> fst ` set REGIONAL_URLS" "''euw'' \<in> fst ` set REGIONAL_URLS"
    "''kr'' \<in> fst ` set REGIONAL_URLS" "''jp'' \<in> fst ` set REGIONAL_URLS"
    "''eune'' \<in> fst ` set REGIONAL_URLS"
    by (simp_all add: regional_keys)
  have q: "riot_req TimeoutException = Inr (err_dict ''Request timeout'')"
    "riot_req (Response 404 Map.empty None) = Inr (err_dict ''Resource not found'')"
    "riot_req (RequestError ''refused'') = Inr (err_dict ''Network error refused'')"
    "riot_req (Response 403 Map.empty None) = Inr (err_dict ''Invalid or expired API key.'')"
    "riot_req (Response 429 Map.empty None)
       = Inr (err_dict ''Rate limit hit. Retry after unknown seconds.'')"
    by simp_all
  show ?thesis
    using q
      tools_return_error_message [OF r(1), where out = TimeoutException
        and msg = "''Request timeout''" and name = "''Ann''" and tag_line = "''EUW''"]
      tools_return_error_message [OF r(2), where out = "Response 404 Map.empty None"
        and msg = "''Resource not found''" and uuid = "''abc''"]
      tools_return_error_message [OF r(3), where out = "RequestError ''refused''"
        and msg = "''Network error refused''" and uuid = "''abc''" and n = 5]
      tools_return_error_message [OF r(4), where out = "Response 403 Map.empty None"
        and msg = "''Invalid or expired API key.''" and match_id = "''JP1_1''"]
      tools_return_error_message [OF r(5), where out = "Response 429 Map.empty None"
        and msg = "''Rate limit hit. Retry after unknown seconds.''" and match_id = "''EUN1_1''"]
    by blast
qed

subsection \<open>C4\<close>

text \<open>
  C4, as stated, fails: a region code that is not in the table is not answered by an
  "unknown region" error of the tool; the \<^verbatim>\<open>KeyError\<close> of the table lookup leaves the
  tool.
\<close>

theorem unknown_region_counterexample:
  "get_match_by_id (\<lambda>url. TimeoutException) ''br'' ''BR1_1'' = Inl KeyError"
  by (simp add: get_match_by_id_def table_item_def REGIONAL_URLS_def)

text \<open>
  C4, amended. A recognized region code (\<^verbatim>\<open>na\<close>, \<^verbatim>\<open>euw\<close>, \<^verbatim>\<open>eune\<close>, \<^verbatim>\<open>kr\<close>, \<^verbatim>\<open>jp\<close>)
  resolves to a regional and a platform base URL that are non-empty and differ from each
  other; for any other code both table lookups raise \<^verbatim>\<open>KeyError\<close>, and so does each of the
  five tools, whatever the network would answer.
\<close>

theorem region_lookup:
  "(region \<in> {''na'', ''euw'', ''eune'', ''kr'', ''jp''} \<longrightarrow>
      (\<exists>regional platform.
         table_item REGIONAL_URLS region = Inr regional
       \<and> table_item PLATFORM_URLS region = Inr platform
       \<and> regional \<noteq> [] \<and> platform \<noteq> [] \<and> regional \<noteq> platform))
   \<and> (region \<notin> {''na'', ''euw'', ''eune'', ''kr'', ''jp''} \<longrightarrow>
        table_item REGIONAL_URLS region = Inl KeyError
      \<and> table_item PLATFORM_URLS region = Inl KeyError
      \<and> get_player_id net region name tag_line = Inl KeyError
      \<and> get_champion_masteries net uuid region = Inl KeyError
      \<and> get_newest_matches net region uuid n = Inl KeyError
      \<and> get_match_by_id net region match_id = Inl KeyError
      \<and> get_match_timeline_by_id net region match_id = Inl KeyError)"
proof (intro conjI impI)
  assume "region \<in> {''na'', ''euw'', ''eune'', ''kr'', ''jp''}"
  then show "\<exists>regional platform.
         table_item REGIONAL_URLS region = Inr regional
       \<and> table_item PLATFORM_URLS region = Inr platform
       \<and> regional \<noteq> [] \<and> platform \<noteq> [] \<and> regional \<noteq> platform"
    by (auto simp: table_item_def REGIONAL_URLS_def PLATFORM_URLS_def)
next
  assume "region \<notin> {''na'', ''euw'', ''eune'', ''kr'', ''jp''}"
  then have r: "table_item REGIONAL_URLS region = Inl KeyError"
    and p: "table_item PLATFORM_URLS region = Inl KeyError"
    by (simp_all add: table_item_unknown regional_keys platform_keys)
  show "table_item REGIONAL_URLS region = Inl KeyError" by (rule r)
  show "table_item PLATFORM_URLS region = Inl KeyError" by (rule p)
  show "get_player_id net region name tag_line = Inl KeyError"
    by (simp add: get_player_id_def r)
  show "get_champion_masteries net uuid region = Inl KeyError"
    by (simp add: get_champion_masteries_def p)
  show "get_newest_matches net region uuid n = Inl KeyError"
    by (simp add: get_newest_matches_def r)
  show "get_match_by_id net region match_id = Inl KeyError"
    by (simp add: get_match_by_id_def r)
  show "get_match_timeline_by_id net region match_id = Inl KeyError"
    by (simp add: get_match_timeline_by_id_def r)
qed

theorem region_lookup_witness:
  "(\<exists>regional platform.
         table_item REGIONAL_URLS ''euw'' = Inr regional
       \<and> table_item PLATFORM_URLS ''euw'' = Inr platform
       \<and> regional \<noteq> [] \<and> platform \<noteq> [] \<and> regional \<noteq> platform)
   \<and> table_item REGIONAL_URLS ''oce'' = Inl KeyError
   \<and> get_champion_masteries (\<lambda>url. Response 200 Map.empty (Some (JList []))) ''abc'' ''oce''
       = Inl KeyError"
  using region_lookup [of "''euw''"]
    region_lookup [of "''oce''" "\<lambda>url. Response 200 Map.empty (Some (JList []))" _ _ "''abc''"]
  by simp

subsection \<open>C5\<close>

text \<open>
  C5. An event of type \<^verbatim>\<open>BUILDING_KILL\<close> renders as \<^verbatim>\<open>BUILDING - Team <teamName> lost
  <buildingType> (<laneType>)\<close> after the time prefix, where the team name is
  \<^verbatim>\<open>Blue Team\<close> for team id 100 and \<^verbatim>\<open>Red Team\<close> for team id 200. For any other team id
  the render of the line fails (with \<^verbatim>\<open>KeyError\<close>, or \<^verbatim>\<open>TypeError\<close> for an unhashable
  value); so it does when the \<^verbatim>\<open>teamId\<close> field is absent, since the default is 0.
\<close>

theorem building_kill_line:
  assumes "map_of ev ''type'' = Some (JStr ''BUILDING_KILL'')"
    and "py_get (JDict ev) ''teamId'' (JInt 0) = Inr team"
    and "py_get (JDict ev) ''buildingType'' (JStr []) = Inr building"
    and "py_get (JDict ev) ''laneType'' (JStr []) = Inr lane"
  shows "(team = JInt 100 \<longrightarrow>
            render_event pm minutes seconds (JDict ev) =
              Inr (Some (time_prefix minutes seconds @ '' BUILDING - Team '' @ ''Blue Team''
                         @ '' lost '' @ py_str building @ '' ('' @ py_str lane @ '')'')))
       \<and> (team = JInt 200 \<longrightarrow>
            render_event pm minutes seconds (JDict ev) =
              Inr (Some (time_prefix minutes seconds @ '' BUILDING - Team '' @ ''Red Team''
                         @ '' lost '' @ py_str building @ '' ('' @ py_str lane @ '')'')))
       \<and> (team \<noteq> JInt 100 \<and> team \<noteq> JInt 200 \<longrightarrow>
            render_event pm minutes seconds (JDict ev) = Inl KeyError
          \<or> render_event pm minutes seconds (JDict ev) = Inl TypeError)
       \<and> (map_of ev ''teamId'' = None \<longrightarrow>
            render_event pm minutes seconds (JDict ev) = Inl KeyError)"
proof -
  have r: "render_event pm minutes seconds (JDict ev) =
      rbind (team_name team) (\<lambda>tn.
        Inr (Some (time_prefix minutes seconds @ '' BUILDING - Team '' @ tn
                   @ '' lost '' @ py_str building @ '' ('' @ py_str lane @ '')'')))"
    using assms by (simp add: render_event_def)
  have t: "team \<noteq> JInt 100 \<and> team \<noteq> JInt 200 \<Longrightarrow>
      team_name team = Inl KeyError \<or> team_name team = Inl TypeError"
    by (cases team) (auto simp: team_name_def)
  have a: "map_of ev ''teamId'' = None \<Longrightarrow> team = JInt 0"
    using assms(2) by simp
  show ?thesis
    using t a by (auto simp: r team_name_def)
qed

theorem building_kill_line_witness:
  "render_event Map.empty 2 5
     (JDict [(''type'', JStr ''BUILDING_KILL''), (''teamId'', JInt 100),
             (''buildingType'', JStr ''TOWER_BUILDING''), (''laneType'', JStr ''MID_LANE'')])
     = Inr (Some (time_prefix 2 5 @ '' BUILDING - Team Blue Team lost TOWER_BUILDING (MID_LANE)''))
   \<and> render_event Map.empty 2 5
     (JDict [(''type'', JStr ''BUILDING_KILL''), (''teamId'', JInt 200)])
     = Inr (Some (time_prefix 2 5 @ '' BUILDING - Team Red Team lost  ()''))
   \<and> render_event Map.empty 2 5
     (JDict [(''type'', JStr ''BUILDING_KILL''), (''buildingType'', JStr ''TOWER_BUILDING'')])
     = Inl KeyError"
  using building_kill_line [of "[(''type'', JStr ''BUILDING_KILL''), (''teamId'', JInt 100),
             (''buildingType'', JStr ''TOWER_BUILDING''), (''laneType'', JStr ''MID_LANE'')]"
           "JInt 100" "JStr ''TOWER_BUILDING''" "JStr ''MID_LANE''" Map.empty 2 5]
    building_kill_line [of "[(''type'', JStr ''BUILDING_KILL''), (''teamId'', JInt 200)]"
           "JInt 200" "JStr []" "JStr []" Map.empty 2 5]
    building_kill_line [of "[(''type'', JStr ''BUILDING_KILL''), (''buildingType'', JStr ''TOWER_BUILDING'')]"
           "JInt 0" "JStr ''TOWER_BUILDING''" "JStr []" Map.empty 2 5]
  by simp

subsection \<open>C6\<close>

text \<open>
  C6. When the fetch of \<^verbatim>\<open>get_champion_masteries\<close> succeeds with a list of \<open>N\<close> mastery
  records (each of the first ten holding the three fields), the tool returns the
  newline-join of exactly \<open>min N 10\<close> lines; line \<open>i\<close> is \<^verbatim>\<open>Champion <id>: Level <level> -
  <points> pts\<close> of the \<open>i\<close>-th record, so the upstream order is kept. When the three
  fields are integers no line holds a newline, so the returned text has exactly
  \<open>min N 10\<close> lines. For the empty list the tool returns the fixed message
  \<^verbatim>\<open>Account does not exist on region\<close>.
\<close>

theorem champion_masteries_lines:
  assumes "region \<in> fst ` set REGIONAL_URLS"
    and "200 \<le> status \<and> status \<le> 299"
    and "\<forall>m \<in> set (take 10 ms). \<exists>c l p. py_item m ''championId'' = Inr c
           \<and> py_item m ''championLevel'' = Inr l \<and> py_item m ''championPoints'' = Inr p"
  shows "(ms = [] \<longrightarrow>
            get_champion_masteries (\<lambda>url. Response status hdrs (Some (JList ms))) uuid region
              = Inr (JStr ''Account does not exist on region''))
       \<and> (ms \<noteq> [] \<longrightarrow>
            (\<exists>lines.
               get_champion_masteries (\<lambda>url. Response status hdrs (Some (JList ms))) uuid region
                 = Inr (JStr (join [CHR 0x0A] lines))
             \<and> length lines = min (length ms) 10
             \<and> (\<forall>i < length lines. \<exists>c l p.
                   py_item (ms ! i) ''championId'' = Inr c
                 \<and> py_item (ms ! i) ''championLevel'' = Inr l
                 \<and> py_item (ms ! i) ''championPoints'' = Inr p
                 \<and> lines ! i = ''Champion '' @ py_str c @ '': Level '' @ py_str l
                                @ '' - '' @ py_str p @ '' pts'')
             \<and> ((\<forall>m \<in> set (take 10 ms). \<exists>c l p. py_item m ''championId'' = Inr (JInt c)
                    \<and> py_item m ''championLevel'' = Inr (JInt l)
                    \<and> py_item m ''championPoints'' = Inr (JInt p)) \<longrightarrow>
                 count_list (join [CHR 0x0A] lines) (CHR 0x0A) + 1 = min (length ms) 10)))"
proof -
  define fmt where "fmt m = ''Champion '' @ py_str (projr (py_item m ''championId''))
      @ '': Level '' @ py_str (projr (py_item m ''championLevel''))
      @ '' - '' @ py_str (projr (py_item m ''championPoints'')) @ '' pts''" for m
  have tool: "get_champion_masteries (\<lambda>url. Response status hdrs (Some (JList ms))) uuid region
      = champion_masteries_result (JList ms)"
    using tools_known_region(2) [OF assms(1), of "\<lambda>url. Response status hdrs (Some (JList ms))" uuid]
      riot_req_success [OF assms(2)]
    by simp
  have line: "mastery_line m = Inr (JStr (fmt m))" if "m \<in> set (take 10 ms)" for m
    using assms(3) that by (auto simp: mastery_line_def fmt_def)
  have lines: "rmap mastery_line (take 10 ms) = Inr (map JStr (map fmt (take 10 ms)))"
    using rmap_Inr [of "take 10 ms" mastery_line "\<lambda>m. JStr (fmt m)"] line by simp
  have res: "champion_masteries_result (JList ms) = Inr (JStr (join [CHR 0x0A] (map fmt (take 10 ms))))"
    if "ms \<noteq> []"
    using that lines join_lines_strs [of "map fmt (take 10 ms)"]
    by (simp add: champion_masteries_result_def py_slice_to_def)
  have nth: "\<exists>c l p. py_item (ms ! i) ''championId'' = Inr c
                 \<and> py_item (ms ! i) ''championLevel'' = Inr l
                 \<and> py_item (ms ! i) ''championPoints'' = Inr p
                 \<and> map fmt (take 10 ms) ! i = ''Champion '' @ py_str c @ '': Level '' @ py_str l
                                @ '' - '' @ py_str p @ '' pts''"
    if "i < length (map fmt (take 10 ms))" for i
  proof -
    from that have i: "i < length (take 10 ms)" by simp
    then have "take 10 ms ! i \<in> set (take 10 ms)" by (rule nth_mem)
    moreover have "take 10 ms ! i = ms ! i" using i by simp
    ultimately have "ms ! i \<in> set (take 10 ms)" by simp
    with assms(3) obtain c l p where "py_item (ms ! i) ''championId'' = Inr c"
      "py_item (ms ! i) ''championLevel'' = Inr l" "py_item (ms ! i) ''championPoints'' = Inr p"
      by blast
    moreover have "map fmt (take 10 ms) ! i = fmt (ms ! i)"
      using i by simp
    ultimately show ?thesis
      by (simp add: fmt_def)
  qed
  have count: "count_list (join [CHR 0x0A] (map fmt (take 10 ms))) (CHR 0x0A) + 1 = min (length ms) 10"
    if ne: "ms \<noteq> []"
      and ints: "\<forall>m \<in> set (take 10 ms). \<exists>c l p. py_item m ''championId'' = Inr (JInt c)
                    \<and> py_item m ''championLevel'' = Inr (JInt l)
                    \<and> py_item m ''championPoints'' = Inr (JInt p)"
  proof -
    have "CHR 0x0A \<notin> set (fmt m)" if "m \<in> set (take 10 ms)" for m
    proof -
      from ints that obtain c l p where "py_item m ''championId'' = Inr (JInt c)"
        "py_item m ''championLevel'' = Inr (JInt l)" "py_item m ''championPoints'' = Inr (JInt p)"
        by blast
      then show ?thesis
        by (simp add: fmt_def str_int_no_newline)
    qed
    moreover have "map fmt (take 10 ms) \<noteq> []"
      using ne by simp
    ultimately have "count_list (join [CHR 0x0A] (map fmt (take 10 ms))) (CHR 0x0A) + 1
        = length (map fmt (take 10 ms))"
      by (intro count_join) auto
    then show ?thesis
      by (simp add: min.commute)
  qed
  show ?thesis
  proof (intro conjI impI)
    assume "ms = []"
    then show "get_champion_masteries (\<lambda>url. Response status hdrs (Some (JList ms))) uuid region
              = Inr (JStr ''Account does not exist on region'')"
      unfolding tool by (simp add: champion_masteries_result_def)
  next
    assume ne: "ms \<noteq> []"
    show "\<exists>lines.
            get_champion_masteries (\<lambda>url. Response status hdrs (Some (JList ms))) uuid region
                 = Inr (JStr (join [CHR 0x0A] lines))
             \<and> length lines = min (length ms) 10
             \<and> (\<forall>i < length lines. \<exists>c l p.
                   py_item (ms ! i) ''championId'' = Inr c
                 \<and> py_item (ms ! i) ''championLevel'' = Inr l
                 \<and> py_item (ms ! i) ''championPoints'' = Inr p
                 \<and> lines ! i = ''Champion '' @ py_str c @ '': Level '' @ py_str l
                                @ '' - '' @ py_str p @ '' pts'')
             \<and> ((\<forall>m \<in> set (take 10 ms). \<exists>c l p. py_item m ''championId'' = Inr (JInt c)
                    \<and> py_item m ''championLevel'' = Inr (JInt l)
                    \<and> py_item m ''championPoints'' = Inr (JInt p)) \<longrightarrow>
                 count_list (join [CHR 0x0A] lines) (CHR 0x0A) + 1 = min (length ms) 10)"
      using res [OF ne] nth count [OF ne]
      by (intro exI [of _ "map fmt (take 10 ms)"]) (simp add: tool min.commute)
  qed
qed

theorem champion_masteries_lines_witness:
  "(\<exists>lines.
      get_champion_masteries
        (\<lambda>url. Response 200 Map.empty (Some (JList (replicate 12
           (JDict [(''championId'', JInt 1), (''championLevel'', JInt 7),
                   (''championPoints'', JInt 12345)])))))
        ''abc'' ''na'' = Inr (JStr (join [CHR 0x0A] lines))
    \<and> length lines = 10
    \<and> lines ! 9 = ''Champion '' @ py_str (JInt 1) @ '': Level '' @ py_str (JInt 7)
                    @ '' - '' @ py_str (JInt 12345) @ '' pts''
    \<and> count_list (join [CHR 0x0A] lines) (CHR 0x0A) + 1 = 10)
   \<and> get_champion_masteries (\<lambda>url. Response 200 Map.empty (Some (JList []))) ''abc'' ''na''
       = Inr (JStr ''Account does not exist on region'')"
proof -
  define e where "e = JDict [(''championId'', JInt 1), (''championLevel'', JInt 7),
                   (''championPoints'', JInt 12345)]"
  have r: "''na'' \<in> fst ` set REGIONAL_URLS"
    by (simp add: regional_keys)
  have s: "(200::int) \<le> 200 \<and> (200::int) \<le> 299"
    by simp
  have h: "\<forall>m \<in> set (take 10 (replicate 12 e)). \<exists>c l p. py_item m ''championId'' = Inr c
           \<and> py_item m ''championLevel'' = Inr l \<and> py_item m ''championPoints'' = Inr p"
    by (simp add: e_def)
  have ints: "\<forall>m \<in> set (take 10 (replicate 12 e)). \<exists>c l p.
             py_item m ''championId'' = Inr (JInt c)
           \<and> py_item m ''championLevel'' = Inr (JInt l)
           \<and> py_item m ''championPoints'' = Inr (JInt p)"
    by (simp add: e_def)
  have h0: "\<forall>m \<in> set (take 10 ([]::json list)). \<exists>c l p. py_item m ''championId'' = Inr c
           \<and> py_item m ''championLevel'' = Inr l \<and> py_item m ''championPoints'' = Inr p"
    by simp
  have ne: "replicate 12 e \<noteq> []"
    by simp
  from champion_masteries_lines [OF r s h, of Map.empty "''abc''", THEN conjunct2, rule_format, OF ne]
  obtain lines where l: "get_champion_masteries
        (\<lambda>url. Response 200 Map.empty (Some (JList (replicate 12 e)))) ''abc'' ''na''
          = Inr (JStr (join [CHR 0x0A] lines))"
      "length lines = min (length (replicate 12 e)) 10"
      "\<forall>i < length lines. \<exists>c l p.
            py_item (replicate 12 e ! i) ''championId'' = Inr c
          \<and> py_item (replicate 12 e ! i) ''championLevel'' = Inr l
          \<and> py_item (replicate 12 e ! i) ''championPoints'' = Inr p
          \<and> lines ! i = ''Champion '' @ py_str c @ '': Level '' @ py_str l
                                @ '' - '' @ py_str p @ '' pts''"
      "(\<forall>m \<in> set (take 10 (replicate 12 e)). \<exists>c l p.
             py_item m ''championId'' = Inr (JInt c)
           \<and> py_item m ''championLevel'' = Inr (JInt l)
           \<and> py_item m ''championPoints'' = Inr (JInt p)) \<longrightarrow>
        count_list (join [CHR 0x0A] lines) (CHR 0x0A) + 1 = min (length (replicate 12 e)) 10"
    by blast
  from l(2) have len: "length lines = 10"
    by simp
  from l(3) len have "\<exists>c l p.
            py_item (replicate 12 e ! 9) ''championId'' = Inr c
          \<and> py_item (replicate 12 e ! 9) ''championLevel'' = Inr l
          \<and> py_item (replicate 12 e ! 9) ''championPoints'' = Inr p
          \<and> lines ! 9 = ''Champion '' @ py_str c @ '': Level '' @ py_str l
                                @ '' - '' @ py_str p @ '' pts''"
    by simp
  then have nine: "lines ! 9 = ''Champion '' @ py_str (JInt 1) @ '': Level '' @ py_str (JInt 7)
                    @ '' - '' @ py_str (JInt 12345) @ '' pts''"
    by (auto simp: e_def)
  from l(4) ints have cnt: "count_list (join [CHR 0x0A] lines) (CHR 0x0A) + 1 = 10"
    by simp
  have empty: "get_champion_masteries (\<lambda>url. Response 200 Map.empty (Some (JList []))) ''abc'' ''na''
       = Inr (JStr ''Account does not exist on region'')"
    using champion_masteries_lines [OF r s h0, of Map.empty "''abc''"] by blast
  show ?thesis
    using l(1) len nine cnt empty unfolding e_def by blast
qed

subsection \<open>C7\<close>

text \<open>
  C7. When \<^verbatim>\<open>get_newest_matches\<close> is called with a positive count and the fetch succeeds
  with a non-empty list of match ids, the tool returns the newline-join of the first
  \<open>min count (length ids)\<close> ids, in upstream order: never more lines than requested. When
  no id holds a newline, the returned text has exactly that many lines.
\<close>

theorem newest_matches_lines:
  assumes "region \<in> fst ` set REGIONAL_URLS"
    and "200 \<le> status \<and> status \<le> 299"
    and "0 < numberOfGames"
    and "ids \<noteq> []"
  shows "get_newest_matches (\<lambda>url. Response status hdrs (Some (JList (map JStr ids))))
           region uuid numberOfGames
           = Inr (JStr (join [CHR 0x0A] (take (nat numberOfGames) ids)))
       \<and> length (take (nat numberOfGames) ids) = min (nat numberOfGames) (length ids)
       \<and> ((\<forall>i \<in> set ids. CHR 0x0A \<notin> set i) \<longrightarrow>
            count_list (join [CHR 0x0A] (take (nat numberOfGames) ids)) (CHR 0x0A) + 1
              = min (nat numberOfGames) (length ids))"
proof -
  have "get_newest_matches (\<lambda>url. Response status hdrs (Some (JList (map JStr ids))))
           region uuid numberOfGames
        = newest_matches_result numberOfGames (JList (map JStr ids))"
    using tools_known_region(3) [OF assms(1),
        of "\<lambda>url. Response status hdrs (Some (JList (map JStr ids)))" uuid numberOfGames]
      riot_req_success [OF assms(2)]
    by simp
  also have "\<dots> = join_lines (map JStr (take (nat numberOfGames) ids))"
    using assms(3,4) by (simp add: newest_matches_result_def py_slice_to_def take_map)
  finally have out: "get_newest_matches (\<lambda>url. Response status hdrs (Some (JList (map JStr ids))))
           region uuid numberOfGames
           = Inr (JStr (join [CHR 0x0A] (take (nat numberOfGames) ids)))"
    by (simp add: join_lines_strs)
  have len: "length (take (nat numberOfGames) ids) = min (nat numberOfGames) (length ids)"
    by (simp add: min.commute)
  have cnt: "count_list (join [CHR 0x0A] (take (nat numberOfGames) ids)) (CHR 0x0A) + 1
              = min (nat numberOfGames) (length ids)"
    if "\<forall>i \<in> set ids. CHR 0x0A \<notin> set i"
  proof -
    have "take (nat numberOfGames) ids \<noteq> []"
      using assms(3,4) by simp
    moreover have "\<forall>l \<in> set (take (nat numberOfGames) ids). CHR 0x0A \<notin> set l"
      using that by (meson in_set_takeD)
    ultimately show ?thesis
      using count_join [of "take (nat numberOfGames) ids"] len by simp
  qed
  show ?thesis
    using out len cnt by blast
qed

theorem newest_matches_lines_witness:
  "get_newest_matches (\<lambda>url. Response 200 Map.empty (Some (JList (map JStr [''m1'', ''m2'', ''m3'']))))
      ''na'' ''abc'' 5 = Inr (JStr (join [CHR 0x0A] [''m1'', ''m2'', ''m3'']))
   \<and> get_newest_matches
        (\<lambda>url. Response 200 Map.empty (Some (JList (map JStr [''m1'', ''m2'', ''m3'', ''m4'', ''m5'']))))
      ''na'' ''abc'' 2 = Inr (JStr (join [CHR 0x0A] [''m1'', ''m2'']))"
proof -
  have r: "''na'' \<in> fst ` set REGIONAL_URLS"
    by (simp add: regional_keys)
  have s: "(200::int) \<le> 200 \<and> (200::int) \<le> 299"
    by simp
  have a: "(0::int) < 5" "[''m1'', ''m2'', ''m3''] \<noteq> []"
    and b: "(0::int) < 2" "[''m1'', ''m2'', ''m3'', ''m4'', ''m5''] \<noteq> []"
    by simp_all
  have t: "take (nat 5) [''m1'', ''m2'', ''m3''] = [''m1'', ''m2'', ''m3'']"
    "take (nat 2) [''m1'', ''m2'', ''m3'', ''m4'', ''m5''] = [''m1'', ''m2'']"
    by (simp_all add: numeral_2_eq_2)
  show ?thesis
    using newest_matches_lines [OF r s a, of Map.empty "''abc''"]
      newest_matches_lines [OF r s b, of Map.empty "''abc''"]
    unfolding t by blast
qed

subsection \<open>C8\<close>

text \<open>
  C8. For a frame whose \<^verbatim>\<open>timestamp\<close> is the integer \<open>t\<close> (0 when the field is absent), the
  minutes are \<open>(t div 1000) div 60\<close> and the seconds \<open>(t div 1000) mod 60\<close>, in integer
  arithmetic; every line the frame emits starts with \<^verbatim>\<open>[MM:SS]\<close>, where each of the two
  numbers is its decimal form padded with zeros to two characters (the seconds are always
  exactly two). So \<open>t = 125000\<close> gives \<^verbatim>\<open>[02:05]\<close> and \<open>t = 0\<close> gives \<^verbatim>\<open>[00:00]\<close>.
\<close>

theorem frame_time_prefix:
  assumes "py_get (JDict fr) ''timestamp'' (JInt 0) = Inr (JInt t)"
  shows "frame_time (JDict fr) = Inr (t div 1000 div 60, t div 1000 mod 60)
       \<and> (\<forall>ls. render_frame pm (JDict fr) = Inr ls \<longrightarrow>
             (\<forall>l \<in> set ls. \<exists>rest.
                 l = ''['' @ fmt02d (t div 1000 div 60) @ '':'' @ fmt02d (t div 1000 mod 60) @ '']''
                     @ rest))
       \<and> fmt02d (t div 1000 div 60)
           = replicate (2 - length (str_int (t div 1000 div 60))) (CHR ''0'')
             @ str_int (t div 1000 div 60)
       \<and> fmt02d (t div 1000 mod 60)
           = replicate (2 - length (str_int (t div 1000 mod 60))) (CHR ''0'')
             @ str_int (t div 1000 mod 60)
       \<and> length (fmt02d (t div 1000 mod 60)) = 2
       \<and> (t = 125000 \<longrightarrow>
            ''['' @ fmt02d (t div 1000 div 60) @ '':'' @ fmt02d (t div 1000 mod 60) @ '']''
              = ''[02:05]'')
       \<and> (t = 0 \<longrightarrow>
            ''['' @ fmt02d (t div 1000 div 60) @ '':'' @ fmt02d (t div 1000 mod 60) @ '']''
              = ''[00:00]'')"
proof -
  have ft: "frame_time (JDict fr) = Inr (t div 1000 div 60, t div 1000 mod 60)"
    using assms by (simp add: frame_time_def)
  have lines: "\<forall>l \<in> set ls. \<exists>rest.
      l = ''['' @ fmt02d (t div 1000 div 60) @ '':'' @ fmt02d (t div 1000 mod 60) @ '']'' @ rest"
    if "render_frame pm (JDict fr) = Inr ls" for ls
  proof -
    from that obtain el where
      "render_events pm (t div 1000 div 60) (t div 1000 mod 60) el = Inr ls"
      by (auto simp: render_frame_def ft rbind_Inr_iff)
    from render_events_prefix [OF this] show ?thesis
      by (simp add: time_prefix_def)
  qed
  have sec: "length (fmt02d (t div 1000 mod 60)) = 2"
    by (rule fmt02d_seconds) simp_all
  have ex1: "fmt02d 2 = ''02''" "fmt02d 5 = ''05''" "fmt02d 0 = ''00''"
    by code_simp+
  show ?thesis
    using ft lines sec fmt02d_padding ex1 by auto
qed

theorem frame_time_prefix_witness:
  "frame_time (JDict [(''timestamp'', JInt 125000), (''events'', JList [])])
     = Inr (125000 div 1000 div 60, 125000 div 1000 mod 60)
   \<and> ''['' @ fmt02d (125000 div 1000 div 60) @ '':'' @ fmt02d (125000 div 1000 mod 60) @ '']''
       = ''[02:05]''
   \<and> frame_time (JDict [(''events'', JList [])]) = Inr (0 div 1000 div 60, 0 div 1000 mod 60)
   \<and> ''['' @ fmt02d (0 div 1000 div 60) @ '':'' @ fmt02d (0 div 1000 mod 60) @ '']''
       = ''[00:00]''"
proof -
  have a: "py_get (JDict [(''timestamp'', JInt 125000), (''events'', JList [])]) ''timestamp'' (JInt 0)
      = Inr (JInt 125000)"
    and b: "py_get (JDict [(''events'', JList [])]) ''timestamp'' (JInt 0) = Inr (JInt 0)"
    by simp_all
  show ?thesis
    using frame_time_prefix [OF a, of Map.empty] frame_time_prefix [OF b, of Map.empty]
    by blast
qed

subsection \<open>C9\<close>

text \<open>
  C9, as stated, fails: for an id that is not in the participant table the label is not
  the string \<^verbatim>\<open>?\<close>. Both the name and the champion fall back to \<^verbatim>\<open>?\<close>, so the label is
  \<^verbatim>\<open>?(?)\<close>.
\<close>

theorem unknown_label_counterexample:
  "get_label Map.empty (JInt 0) = Inr ''?(?)'' \<and> get_label Map.empty (JInt 0) \<noteq> Inr ''?''"
  by (simp add: get_label_def)

text \<open>
  C9, amended. The events of a frame are rendered in their given order, with exactly one
  line for each recognized event and none for the others; the loop returns its lines
  whenever every single event renders. Every participant reference of a line is the
  label \<^verbatim>\<open>get_label\<close> gives for the id the event holds, or for the default id 0 when the
  event lacks the field: the killer and the victim of a \<^verbatim>\<open>CHAMPION_KILL\<close>, the killer of an
  \<^verbatim>\<open>ELITE_MONSTER_KILL\<close>, the participant of an \<^verbatim>\<open>ITEM_PURCHASED\<close> and of a
  \<^verbatim>\<open>SKILL_LEVEL_UP\<close>. The label is \<^verbatim>\<open><name>(<champion>)\<close> for an id of the participant
  table and \<^verbatim>\<open>?(?)\<close> for an id that is not in it. An event of any other type gives no
  line.
\<close>

theorem events_in_order_with_labels:
  "(\<forall>ls. render_events pm minutes seconds evs = Inr ls \<longrightarrow>
       list_all2 (\<lambda>e l. render_event pm minutes seconds e = Inr (Some l))
         (filter recognized_event evs) ls)
   \<and> ((\<forall>e \<in> set evs. \<exists>lo. render_event pm minutes seconds e = Inr lo) \<longrightarrow>
        (\<exists>ls. render_events pm minutes seconds evs = Inr ls))
   \<and> (py_hash pid = Inr k \<and> pm k = Some (name, champion) \<longrightarrow>
        get_label pm pid = Inr (py_str name @ ''('' @ py_str champion @ '')''))
   \<and> (py_hash pid = Inr k \<and> pm k = None \<longrightarrow> get_label pm pid = Inr ''?(?)'')
   \<and> (pm (KInt 0) = None \<and> map_of ev ''type'' = Some (JStr ''ITEM_PURCHASED'')
        \<and> map_of ev ''participantId'' = None \<and> map_of ev ''itemId'' = Some item \<longrightarrow>
        render_event pm minutes seconds (JDict ev)
          = Inr (Some (time_prefix minutes seconds @ '' ITEM - Player ?(?) purchased item ''
                       @ py_str item)))
   \<and> (map_of ev ''type'' = Some (JStr ''CHAMPION_KILL'')
        \<and> py_get (JDict ev) ''killerId'' (JInt 0) = Inr killer
        \<and> py_get (JDict ev) ''victimId'' (JInt 0) = Inr victim
        \<and> py_get (JDict ev) ''assistingParticipantIds'' (JList []) = Inr assists
        \<and> get_label pm killer = Inr lk \<and> get_label pm victim = Inr lv \<longrightarrow>
        render_event pm minutes seconds (JDict ev)
          = Inr (Some (time_prefix minutes seconds @ '' KILL - Player '' @ lk
                       @ '' killed Player '' @ lv @ '' (assists: '' @ py_str assists @ '')'')))
   \<and> (map_of ev ''type'' = Some (JStr ''ELITE_MONSTER_KILL'')
        \<and> py_get (JDict ev) ''killerId'' (JInt 0) = Inr killer
        \<and> py_get (JDict ev) ''monsterType'' (JStr []) = Inr monster
        \<and> py_get (JDict ev) ''monsterSubType'' (JStr []) = Inr subtype
        \<and> get_label pm killer = Inr lk \<longrightarrow>
        render_event pm minutes seconds (JDict ev)
          = Inr (Some (time_prefix minutes seconds @ '' MONSTER - Player '' @ lk
                       @ '' killed '' @ py_str monster @ '' '' @ py_str subtype)))
   \<and> (map_of ev ''type'' = Some (JStr ''ITEM_PURCHASED'')
        \<and> py_get (JDict ev) ''participantId'' (JInt 0) = Inr participant
        \<and> py_get (JDict ev) ''itemId'' (JInt 0) = Inr item_id
        \<and> get_label pm participant = Inr lp \<longrightarrow>
        render_event pm minutes seconds (JDict ev)
          = Inr (Some (time_prefix minutes seconds @ '' ITEM - Player '' @ lp
                       @ '' purchased item '' @ py_str item_id)))
   \<and> (map_of ev ''type'' = Some (JStr ''SKILL_LEVEL_UP'')
        \<and> py_get (JDict ev) ''participantId'' (JInt 0) = Inr participant
        \<and> py_get (JDict ev) ''skillSlot'' (JInt 0) = Inr skill_slot
        \<and> skill_name skill_slot = Inr sn
        \<and> get_label pm participant = Inr lp \<longrightarrow>
        render_event pm minutes seconds (JDict ev)
          = Inr (Some (time_prefix minutes seconds @ '' SKILL - Player '' @ lp
                       @ '' leveled up '' @ sn)))
   \<and> (get_label pm killer = Inl x
        \<and> py_get (JDict ev) ''killerId'' (JInt 0) = Inr killer
        \<and> (map_of ev ''type'' = Some (JStr ''CHAMPION_KILL'')
             \<or> map_of ev ''type'' = Some (JStr ''ELITE_MONSTER_KILL'')) \<longrightarrow>
        render_event pm minutes seconds (JDict ev) = Inl x)
   \<and> (\<not> recognized_event (JDict ev) \<longrightarrow> render_event pm minutes seconds (JDict ev) = Inr None)"
proof -
  have order: "\<forall>ls. render_events pm minutes seconds evs = Inr ls \<longrightarrow>
       list_all2 (\<lambda>e l. render_event pm minutes seconds e = Inr (Some l))
         (filter recognized_event evs) ls"
    using render_events_order by blast
  have total: "(\<forall>e \<in> set evs. \<exists>lo. render_event pm minutes seconds e = Inr lo) \<longrightarrow>
        (\<exists>ls. render_events pm minutes seconds evs = Inr ls)"
    using render_events_total [of evs pm minutes seconds] by blast
  have known: "py_hash pid = Inr k \<and> pm k = Some (name, champion) \<longrightarrow>
        get_label pm pid = Inr (py_str name @ ''('' @ py_str champion @ '')'')"
    by (simp add: get_label_def)
  have unknown: "py_hash pid = Inr k \<and> pm k = None \<longrightarrow> get_label pm pid = Inr ''?(?)''"
    by (simp add: get_label_def)
  have absent: "pm (KInt 0) = None \<and> map_of ev ''type'' = Some (JStr ''ITEM_PURCHASED'')
        \<and> map_of ev ''participantId'' = None \<and> map_of ev ''itemId'' = Some item \<longrightarrow>
        render_event pm minutes seconds (JDict ev)
          = Inr (Some (time_prefix minutes seconds @ '' ITEM - Player ?(?) purchased item ''
                       @ py_str item))"
    by (simp add: render_event_def get_label_def)
  have kill: "map_of ev ''type'' = Some (JStr ''CHAMPION_KILL'')
        \<and> py_get (JDict ev) ''killerId'' (JInt 0) = Inr killer
        \<and> py_get (JDict ev) ''victimId'' (JInt 0) = Inr victim
        \<and> py_get (JDict ev) ''assistingParticipantIds'' (JList []) = Inr assists
        \<and> get_label pm killer = Inr lk \<and> get_label pm victim = Inr lv \<longrightarrow>
        render_event pm minutes seconds (JDict ev)
          = Inr (Some (time_prefix minutes seconds @ '' KILL - Player '' @ lk
                       @ '' killed Player '' @ lv @ '' (assists: '' @ py_str assists @ '')''))"
    by (simp add: render_event_def)
  have monster: "map_of ev ''type'' = Some (JStr ''ELITE_MONSTER_KILL'')
        \<and> py_get (JDict ev) ''killerId'' (JInt 0) = Inr killer
        \<and> py_get (JDict ev) ''monsterType'' (JStr []) = Inr monster
        \<and> py_get (JDict ev) ''monsterSubType'' (JStr []) = Inr subtype
        \<and> get_label pm killer = Inr lk \<longrightarrow>
        render_event pm minutes seconds (JDict ev)
          = Inr (Some (time_prefix minutes seconds @ '' MONSTER - Player '' @ lk
                       @ '' killed '' @ py_str monster @ '' '' @ py_str subtype))"
    by (simp add: render_event_def)
  have item: "map_of ev ''type'' = Some (JStr ''ITEM_PURCHASED'')
        \<and> py_get (JDict ev) ''participantId'' (JInt 0) = Inr participant
        \<and> py_get (JDict ev) ''itemId'' (JInt 0) = Inr item_id
        \<and> get_label pm participant = Inr lp \<longrightarrow>
        render_event pm minutes seconds (JDict ev)
          = Inr (Some (time_prefix minutes seconds @ '' ITEM - Player '' @ lp
                       @ '' purchased item '' @ py_str item_id))"
    by (simp add: render_event_def)
  have skill: "map_of ev ''type'' = Some (JStr ''SKILL_LEVEL_UP'')
        \<and> py_get (JDict ev) ''participantId'' (JInt 0) = Inr participant
        \<and> py_get (JDict ev) ''skillSlot'' (JInt 0) = Inr skill_slot
        \<and> skill_name skill_slot = Inr sn
        \<and> get_label pm participant = Inr lp \<longrightarrow>
        render_event pm minutes seconds (JDict ev)
          = Inr (Some (time_prefix minutes seconds @ '' SKILL - Player '' @ lp
                       @ '' leveled up '' @ sn))"
    by (simp add: render_event_def)
  have fails: "get_label pm killer = Inl x
        \<and> py_get (JDict ev) ''killerId'' (JInt 0) = Inr killer
        \<and> (map_of ev ''type'' = Some (JStr ''CHAMPION_KILL'')
             \<or> map_of ev ''type'' = Some (JStr ''ELITE_MONSTER_KILL'')) \<longrightarrow>
        render_event pm minutes seconds (JDict ev) = Inl x"
    by (auto simp: render_event_def)
  have other: "\<not> recognized_event (JDict ev) \<longrightarrow>
        render_event pm minutes seconds (JDict ev) = Inr None"
    by (auto simp: render_event_def recognized_event_def)
  show ?thesis
    using order total known unknown absent kill monster item skill fails other
    by (intro conjI)
qed

theorem events_in_order_with_labels_witness:
  "list_all2
     (\<lambda>e l. render_event (Map.empty(KInt 1 \<mapsto> (JStr ''Ann'', JStr ''Ahri''))) 2 5 e = Inr (Some l))
     (filter recognized_event
        [JDict [(''type'', JStr ''ITEM_PURCHASED''), (''participantId'', JInt 1), (''itemId'', JStr ''boots'')],
         JDict [(''type'', JStr ''WARD_PLACED'')],
         JDict [(''type'', JStr ''ITEM_PURCHASED''), (''itemId'', JStr ''sword'')]])
     [time_prefix 2 5 @ '' ITEM - Player Ann(Ahri) purchased item boots'',
      time_prefix 2 5 @ '' ITEM - Player ?(?) purchased item sword'']
   \<and> get_label (Map.empty(KInt 1 \<mapsto> (JStr ''Ann'', JStr ''Ahri''))) (JInt 1) = Inr ''Ann(Ahri)''
   \<and> get_label (Map.empty(KInt 1 \<mapsto> (JStr ''Ann'', JStr ''Ahri''))) (JInt 7) = Inr ''?(?)''
   \<and> render_event (Map.empty(KInt 1 \<mapsto> (JStr ''Ann'', JStr ''Ahri''))) 2 5
        (JDict [(''type'', JStr ''ITEM_PURCHASED''), (''itemId'', JStr ''sword'')])
        = Inr (Some (time_prefix 2 5 @ '' ITEM - Player ?(?) purchased item sword''))
   \<and> render_event (Map.empty(KInt 1 \<mapsto> (JStr ''Ann'', JStr ''Ahri''))) 2 5
        (JDict [(''type'', JStr ''CHAMPION_KILL''), (''victimId'', JInt 1)])
        = Inr (Some (time_prefix 2 5 @ '' KILL - Player ?(?) killed Player Ann(Ahri) (assists: [])''))
   \<and> render_event (Map.empty(KInt 1 \<mapsto> (JStr ''Ann'', JStr ''Ahri''))) 2 5
        (JDict [(''type'', JStr ''ELITE_MONSTER_KILL''), (''killerId'', JInt 1),
                (''monsterType'', JStr ''DRAGON''), (''monsterSubType'', JStr ''FIRE_DRAGON'')])
        = Inr (Some (time_prefix 2 5 @ '' MONSTER - Player Ann(Ahri) killed DRAGON FIRE_DRAGON''))
   \<and> render_event (Map.empty(KInt 1 \<mapsto> (JStr ''Ann'', JStr ''Ahri''))) 2 5
        (JDict [(''type'', JStr ''SKILL_LEVEL_UP''), (''participantId'', JInt 1), (''skillSlot'', JInt 2)])
        = Inr (Some (time_prefix 2 5 @ '' SKILL - Player Ann(Ahri) leveled up W''))
   \<and> render_event (Map.empty(KInt 1 \<mapsto> (JStr ''Ann'', JStr ''Ahri''))) 2 5
        (JDict [(''type'', JStr ''CHAMPION_KILL''), (''killerId'', JList [])]) = Inl TypeError
   \<and> render_event (Map.empty(KInt 1 \<mapsto> (JStr ''Ann'', JStr ''Ahri''))) 2 5
        (JDict [(''type'', JStr ''WARD_PLACED'')]) = Inr None"
proof -
  let ?pm = "Map.empty(KInt 1 \<mapsto> (JStr ''Ann'', JStr ''Ahri''))"
  let ?evs = "[JDict [(''type'', JStr ''ITEM_PURCHASED''), (''participantId'', JInt 1), (''itemId'', JStr ''boots'')],
         JDict [(''type'', JStr ''WARD_PLACED'')],
         JDict [(''type'', JStr ''ITEM_PURCHASED''), (''itemId'', JStr ''sword'')]]"
  have run: "render_events ?pm 2 5 ?evs =
      Inr [time_prefix 2 5 @ '' ITEM - Player Ann(Ahri) purchased item boots'',
           time_prefix 2 5 @ '' ITEM - Player ?(?) purchased item sword'']"
    by (simp add: render_event_def get_label_def)
  have lab: "get_label ?pm (JInt 1) = Inr ''Ann(Ahri)''" "get_label ?pm (JInt 0) = Inr ''?(?)''"
    "get_label ?pm (JList []) = Inl TypeError"
    by (simp_all add: get_label_def)
  have sk: "skill_name (JInt 2) = Inr ''W''"
    by (simp add: skill_name_def)
  have unrec: "\<not> recognized_event (JDict [(''type'', JStr ''WARD_PLACED'')])"
    by (simp add: recognized_event_def)
  have order: "list_all2 (\<lambda>e l. render_event ?pm 2 5 e = Inr (Some l))
     (filter recognized_event ?evs)
     [time_prefix 2 5 @ '' ITEM - Player Ann(Ahri) purchased item boots'',
      time_prefix 2 5 @ '' ITEM - Player ?(?) purchased item sword'']"
    using run
      events_in_order_with_labels [where pm = ?pm and minutes = 2 and seconds = 5
        and evs = ?evs,
        THEN conjunct1]
    by blast
  have labels: "get_label ?pm (JInt 1) = Inr ''Ann(Ahri)''" "get_label ?pm (JInt 7) = Inr ''?(?)''"
    using
      events_in_order_with_labels [where pm = ?pm and minutes = 2 and seconds = 5
        and pid = "JInt 1" and k = "KInt 1" and name = "JStr ''Ann''"
        and champion = "JStr ''Ahri''",
        THEN conjunct2, THEN conjunct2, THEN conjunct1]
      events_in_order_with_labels [where pm = ?pm and minutes = 2 and seconds = 5
        and pid = "JInt 7" and k = "KInt 7",
        THEN conjunct2, THEN conjunct2, THEN conjunct2, THEN conjunct1]
    by simp_all
  have sword: "render_event ?pm 2 5
        (JDict [(''type'', JStr ''ITEM_PURCHASED''), (''itemId'', JStr ''sword'')])
        = Inr (Some (time_prefix 2 5 @ '' ITEM - Player ?(?) purchased item sword''))"
    using
      events_in_order_with_labels [where pm = ?pm and minutes = 2 and seconds = 5
        and ev = "[(''type'', JStr ''ITEM_PURCHASED''), (''itemId'', JStr ''sword'')]"
        and item = "JStr ''sword''",
        THEN conjunct2, THEN conjunct2, THEN conjunct2, THEN conjunct2, THEN conjunct1]
    by simp
  have kill: "render_event ?pm 2 5
        (JDict [(''type'', JStr ''CHAMPION_KILL''), (''victimId'', JInt 1)])
        = Inr (Some (time_prefix 2 5 @ '' KILL - Player ?(?) killed Player Ann(Ahri) (assists: [])''))"
    using lab
      events_in_order_with_labels [where pm = ?pm and minutes = 2 and seconds = 5
        and ev = "[(''type'', JStr ''CHAMPION_KILL''), (''victimId'', JInt 1)]"
        and killer = "JInt 0" and victim = "JInt 1" and assists = "JList []"
        and lk = "''?(?)''" and lv = "''Ann(Ahri)''",
        THEN conjunct2, THEN conjunct2, THEN conjunct2, THEN conjunct2, THEN conjunct2,
        THEN conjunct1]
    by simp
  have monster: "render_event ?pm 2 5
        (JDict [(''type'', JStr ''ELITE_MONSTER_KILL''), (''killerId'', JInt 1),
                (''monsterType'', JStr ''DRAGON''), (''monsterSubType'', JStr ''FIRE_DRAGON'')])
        = Inr (Some (time_prefix 2 5 @ '' MONSTER - Player Ann(Ahri) killed DRAGON FIRE_DRAGON''))"
    using lab
      events_in_order_with_labels [where pm = ?pm and minutes = 2 and seconds = 5
        and ev = "[(''type'', JStr ''ELITE_MONSTER_KILL''), (''killerId'', JInt 1),
                (''monsterType'', JStr ''DRAGON''), (''monsterSubType'', JStr ''FIRE_DRAGON'')]"
        and killer = "JInt 1" and monster = "JStr ''DRAGON''" and subtype = "JStr ''FIRE_DRAGON''"
        and lk = "''Ann(Ahri)''",
        THEN conjunct2, THEN conjunct2, THEN conjunct2, THEN conjunct2, THEN conjunct2,
        THEN conjunct2, THEN conjunct1]
    by simp
  have skill: "render_event ?pm 2 5
        (JDict [(''type'', JStr ''SKILL_LEVEL_UP''), (''participantId'', JInt 1), (''skillSlot'', JInt 2)])
        = Inr (Some (time_prefix 2 5 @ '' SKILL - Player Ann(Ahri) leveled up W''))"
    using lab sk
      events_in_order_with_labels [where pm = ?pm and minutes = 2 and seconds = 5
        and ev = "[(''type'', JStr ''SKILL_LEVEL_UP''), (''participantId'', JInt 1),
                (''skillSlot'', JInt 2)]"
        and participant = "JInt 1" and skill_slot = "JInt 2" and sn = "''W''"
        and lp = "''Ann(Ahri)''",
        THEN conjunct2, THEN conjunct2, THEN conjunct2, THEN conjunct2, THEN conjunct2,
        THEN conjunct2, THEN conjunct2, THEN conjunct2, THEN conjunct1]
    by simp
  have bad: "render_event ?pm 2 5
        (JDict [(''type'', JStr ''CHAMPION_KILL''), (''killerId'', JList [])]) = Inl TypeError"
    using lab
      events_in_order_with_labels [where pm = ?pm and minutes = 2 and seconds = 5
        and ev = "[(''type'', JStr ''CHAMPION_KILL''), (''killerId'', JList [])]"
        and killer = "JList []" and x = TypeError,
        THEN conjunct2, THEN conjunct2, THEN conjunct2, THEN conjunct2, THEN conjunct2,
        THEN conjunct2, THEN conjunct2, THEN conjunct2, THEN conjunct2, THEN conjunct1]
    by simp
  have none: "render_event ?pm 2 5 (JDict [(''type'', JStr ''WARD_PLACED'')]) = Inr None"
    using unrec
      events_in_order_with_labels [where pm = ?pm and minutes = 2 and seconds = 5
        and ev = "[(''type'', JStr ''WARD_PLACED'')]",
        THEN conjunct2, THEN conjunct2, THEN conjunct2, THEN conjunct2, THEN conjunct2,
        THEN conjunct2, THEN conjunct2, THEN conjunct2, THEN conjunct2, THEN conjunct2]
    by blast
  show ?thesis
    using order labels sword kill monster skill bad none by (intro conjI)
qed

subsection \<open>C10\<close>

text \<open>
  C10. In \<^verbatim>\<open>get_match_timeline_by_id\<close> the participants list has no default: when the
  \<^verbatim>\<open>info\<close> object of a successful body has no \<^verbatim>\<open>participants\<close> key, the loop over
  \<^verbatim>\<open>info.get("participants")\<close> iterates over \<^verbatim>\<open>None\<close> and the tool raises \<^verbatim>\<open>TypeError\<close>
  instead of returning a string. The frames and the frame interval are defaulted: with an
  empty participants list and neither of them, the tool returns the header line alone.
\<close>

theorem timeline_missing_participants:
  assumes "region \<in> fst ` set REGIONAL_URLS"
    and "200 \<le> status \<and> status \<le> 299"
    and "\<not> truthy (case map_of body ''error'' of None \<Rightarrow> JNull | Some v \<Rightarrow> v)"
    and "map_of body ''info'' = Some (JDict info)"
  shows "(map_of info ''participants'' = None \<longrightarrow>
            get_match_timeline_by_id (\<lambda>url. Response status hdrs (Some (JDict body)))
              region match_id = Inl TypeError)
       \<and> (map_of info ''participants'' = Some (JList []) \<and> map_of info ''frames'' = None
            \<and> map_of info ''frameInterval'' = None \<longrightarrow>
            get_match_timeline_by_id (\<lambda>url. Response status hdrs (Some (JDict body)))
              region match_id = Inr (JStr (''Match: '' @ match_id @ '' - Frame interval: 0s'')))"
proof -
  have tool: "get_match_timeline_by_id (\<lambda>url. Response status hdrs (Some (JDict body)))
      region match_id = timeline_result match_id (JDict body)"
    using tools_known_region(5) [OF assms(1),
        of "\<lambda>url. Response status hdrs (Some (JDict body))" match_id]
      riot_req_success [OF assms(2)]
    by simp
  have ne: "body \<noteq> []"
    using assms(4) by auto
  show ?thesis
    unfolding tool using ne assms(3,4)
    by (simp add: timeline_result_def str_int_0)
qed

theorem timeline_missing_participants_witness:
  "get_match_timeline_by_id
     (\<lambda>url. Response 200 Map.empty
        (Some (JDict [(''info'', JDict [(''frameInterval'', JInt 60000), (''frames'', JList [])])])))
     ''na'' ''NA1_1'' = Inl TypeError
   \<and> get_match_timeline_by_id
     (\<lambda>url. Response 200 Map.empty (Some (JDict [(''info'', JDict [(''participants'', JList [])])])))
     ''na'' ''NA1_1'' = Inr (JStr ''Match: NA1_1 - Frame interval: 0s'')"
proof -
  have r: "''na'' \<in> fst ` set REGIONAL_URLS"
    by (simp add: regional_keys)
  have s: "(200::int) \<le> 200 \<and> (200::int) \<le> 299"
    by simp
  have e1: "\<not> truthy (case map_of [(''info'', JDict [(''frameInterval'', JInt 60000), (''frames'', JList [])])]
                            ''error'' of None \<Rightarrow> JNull | Some v \<Rightarrow> v)"
    and i1: "map_of [(''info'', JDict [(''frameInterval'', JInt 60000), (''frames'', JList [])])] ''info''
               = Some (JDict [(''frameInterval'', JInt 60000), (''frames'', JList [])])"
    and e2: "\<not> truthy (case map_of [(''info'', JDict [(''participants'', JList [])])]
                            ''error'' of None \<Rightarrow> JNull | Some v \<Rightarrow> v)"
    and i2: "map_of [(''info'', JDict [(''participants'', JList [])])] ''info''
               = Some (JDict [(''participants'', JList [])])"
    by simp_all
  show ?thesis
    using timeline_missing_participants [OF r s e1 i1, of Map.empty "''NA1_1''"]
      timeline_missing_participants [OF r s e2 i2, of Map.empty "''NA1_1''"]
    by simp
qed

end
